theory Spec2Isabelle
  imports Complex_Main
begin

section \<open>Shared data: the API's types (types/index.ts, api/client.ts)\<close>

text \<open>
  JavaScript numbers that reach the views come out of JSON responses, so they are finite
  doubles; the code only copies and compares them (strict equality, greater-than, \<open>Math.max\<close>), and on
  finite doubles these agree with the order of the reals. Such numbers are modelled as
  \<open>real\<close>: the exact value of the double. The one place where the views compute with
  numbers is the product \<open>i * 0.1\<close> of the sensitivity view; it is modelled in double
  arithmetic, with its rounding.
\<close>

datatype js_error = TypeError | RangeError

record BacktestResult =
  date :: string
  predicted_scenario :: string
  actual_risk_off_next_week :: bool
  hawk_dominant :: bool
  japan_action :: string
  china_action :: string
  usa_action :: string
  germany_action :: string
  taiwan_action :: string

record BacktestSummary =
  summary_total_weeks :: int
  summary_accuracy :: real
  hawk_weeks_predicted :: int
  actual_risk_off_weeks :: int

text \<open>The \<open>result\<close> member of a job-status response.\<close>

record job_result =
  results :: "BacktestResult list"
  summary :: BacktestSummary
  total_weeks :: int
  accuracy :: real

section \<open>CountryMarketCard.formatPrice\<close>

text \<open>
  \<open>Number.prototype.toLocaleString('en-US', { maximumFractionDigits: k })\<close> belongs to the
  platform, not to the repository: it is the parameter \<open>toLocaleString\<close>, applied to the
  value and to \<open>k\<close>. The argument \<open>value: number | null\<close> is a \<open>real option\<close>.
\<close>

definition formatPrice :: "(real \<Rightarrow> nat \<Rightarrow> string) \<Rightarrow> real option \<Rightarrow> string" where
  "formatPrice toLocaleString v =
     (case v of
        None \<Rightarrow> ''N/A''
      | Some x \<Rightarrow>
          if x = 0 then ''N/A''
          else if x > 10000 then toLocaleString x 0
          else if x > 100 then toLocaleString x 2
          else toLocaleString x 4)"

section \<open>BacktestView: chart data, accuracy distribution, results table\<close>

text \<open>
  \<open>format(new Date(s), pattern)\<close> is date-fns: it gives the formatted text, or throws a
  RangeError when \<open>s\<close> is not a date. It is the parameter \<open>format_date\<close>, applied to the
  date string and the pattern.

  \<open>Array.prototype.map\<close> with a callback that may throw: the first exception ends it.
\<close>

fun array_map :: "('a \<Rightarrow> js_error + 'b) \<Rightarrow> 'a list \<Rightarrow> js_error + 'b list" where
  "array_map f [] = Inr []"
| "array_map f (x # xs) =
     (case f x of
        Inl e \<Rightarrow> Inl e
      | Inr y \<Rightarrow> (case array_map f xs of Inl e \<Rightarrow> Inl e | Inr ys \<Rightarrow> Inr (y # ys)))"

text \<open>\<open>chartData\<close>: one point per result; \<open>accuracy\<close> is 1 or 0.\<close>

record chart_point =
  cp_date :: string
  cp_accuracy :: nat
  cp_predicted :: string
  cp_actual :: string

definition chart_point_of ::
  "(string \<Rightarrow> string \<Rightarrow> js_error + string) \<Rightarrow> BacktestResult \<Rightarrow> js_error + chart_point" where
  "chart_point_of format_date r =
     (case format_date (date r) ''MMM dd'' of
        Inl e \<Rightarrow> Inl e
      | Inr label \<Rightarrow>
          Inr \<lparr> cp_date = label,
                cp_accuracy = (if hawk_dominant r = actual_risk_off_next_week r then 1 else 0),
                cp_predicted = (if hawk_dominant r then ''Hawk'' else ''Dove''),
                cp_actual = (if actual_risk_off_next_week r then ''Risk-Off'' else ''Risk-On'') \<rparr>)"

definition chartData ::
  "(string \<Rightarrow> string \<Rightarrow> js_error + string) \<Rightarrow> job_result option \<Rightarrow> js_error + chart_point list" where
  "chartData format_date backtestData =
     (case backtestData of
        None \<Rightarrow> Inr []
      | Some d \<Rightarrow> array_map (chart_point_of format_date) (results d))"

definition accuracyData :: "job_result option \<Rightarrow> (string \<times> nat) list" where
  "accuracyData backtestData =
     (case backtestData of
        None \<Rightarrow> []
      | Some d \<Rightarrow>
          [ (''Correct'',
               length (filter (\<lambda>r. hawk_dominant r = actual_risk_off_next_week r) (results d))),
            (''Incorrect'',
               length (filter (\<lambda>r. hawk_dominant r \<noteq> actual_risk_off_next_week r) (results d))) ])"

text \<open>
  A row of the results table: the date cell, the \<open>isCorrect\<close> flag (it picks the row's
  colour) and the text of the Result cell. The table is rendered when \<open>backtestData\<close> is
  set.
\<close>

record table_row =
  tr_date :: string
  tr_isCorrect :: bool
  tr_label :: string

definition table_row_of ::
  "(string \<Rightarrow> string \<Rightarrow> js_error + string) \<Rightarrow> BacktestResult \<Rightarrow> js_error + table_row" where
  "table_row_of format_date r =
     (let isCorrect = (hawk_dominant r = actual_risk_off_next_week r)
      in case format_date (date r) ''MMM dd, yyyy'' of
           Inl e \<Rightarrow> Inl e
         | Inr label \<Rightarrow>
             Inr \<lparr> tr_date = label, tr_isCorrect = isCorrect,
                   tr_label = (if isCorrect then ''Correct'' else ''Incorrect'') \<rparr>)"

definition results_table ::
  "(string \<Rightarrow> string \<Rightarrow> js_error + string) \<Rightarrow> job_result option \<Rightarrow> js_error + table_row list" where
  "results_table format_date backtestData =
     (case backtestData of
        None \<Rightarrow> Inr []
      | Some d \<Rightarrow> array_map (table_row_of format_date) (results d))"

section \<open>PredictionMatrix\<close>

text \<open>
  \<open>Math.max(...strategy)\<close>: the largest element, and \<open>-Infinity\<close> (here \<open>None\<close>) for the
  empty list.
\<close>

fun Math_max :: "real list \<Rightarrow> real option" where
  "Math_max [] = None"
| "Math_max (x # xs) = Some (fold max xs x)"

text \<open>
  A cell of the matrix: its probability and whether it is marked (highlighted and
  starred). The percentage text and the bar are drawn from \<open>prob\<close> alone.
\<close>

record matrix_cell =
  cell_prob :: real
  cell_isDominant :: bool

definition row_cells :: "real list \<Rightarrow> matrix_cell list" where
  "row_cells strategy =
     (let maxProb = Math_max strategy
      in map (\<lambda>prob. \<lparr> cell_prob = prob, cell_isDominant = (Some prob = maxProb) \<rparr>) strategy)"

record NashEquilibrium =
  parties :: "string list"
  actions :: "string list"
  strategies :: "real list list"

record matrix_row =
  row_party :: string
  row_cellsr :: "matrix_cell list"

text \<open>
  The table body maps over \<open>parties\<close> and reads \<open>strategies[partyIdx]\<close>; when that is
  \<open>undefined\<close> the spread \<open>...strategy\<close> throws a TypeError and nothing is rendered.
\<close>

definition PredictionMatrix_rows :: "NashEquilibrium \<Rightarrow> js_error + matrix_row list" where
  "PredictionMatrix_rows equilibrium =
     (if length (parties equilibrium) \<le> length (strategies equilibrium)
      then Inr (map (\<lambda>(party, strategy). \<lparr> row_party = party, row_cellsr = row_cells strategy \<rparr>)
                    (zip (parties equilibrium) (strategies equilibrium)))
      else Inl TypeError)"

section \<open>The job-status interface (api/client.ts, backtestApi.getJobStatus)\<close>

text \<open>
  The response type's \<open>status\<close> member is the union
  \<open>'pending' | 'running' | 'completed' | 'failed'\<close>; the views' \<open>jobStatus\<close> state has the
  same four members (and \<open>null\<close>).
\<close>

datatype job_status = Pending | Running | Completed | Failed

fun status_text :: "job_status \<Rightarrow> string" where
  "status_text Pending = ''pending''"
| "status_text Running = ''running''"
| "status_text Completed = ''completed''"
| "status_text Failed = ''failed''"

definition client_job_statuses :: "string list" where
  "client_job_statuses = map status_text [Pending, Running, Completed, Failed]"

text \<open>
  The status set in the words of the specification's data model:
  "status \<open>\<in>\<close> {pending, running, completed, failed, cancelled}".
\<close>

definition spec_job_statuses :: "string list" where
  "spec_job_statuses = [''pending'', ''running'', ''completed'', ''failed'', ''cancelled'']"

record job_status_response =
  resp_job_id :: string
  resp_status :: job_status
  resp_progress :: real
  resp_current_step :: string
  resp_current_step_num :: int
  resp_total_steps :: int
  resp_result :: "job_result option"
  resp_error :: "string option"

record start_response =
  start_job_id :: string
  start_status :: string
  start_message :: string

text \<open>The requests the backtest view sends through \<open>backtestApi\<close>.\<close>

datatype api_request =
    StartBacktest string string string
  | GetJobStatus string

text \<open>\<open>startBacktest(startDate, endDate, freq = 'W-FRI')\<close>: the body that is posted.\<close>

definition startBacktest :: "string \<Rightarrow> string \<Rightarrow> string option \<Rightarrow> api_request" where
  "startBacktest startDate endDate freq =
     StartBacktest startDate endDate (case freq of None \<Rightarrow> ''W-FRI'' | Some f \<Rightarrow> f)"

text \<open>JavaScript's \<open>x || d\<close> on an optional string: \<open>undefined\<close> and \<open>''\<close> are falsy.\<close>

definition js_or :: "string option \<Rightarrow> string \<Rightarrow> string" where
  "js_or x d = (case x of None \<Rightarrow> d | Some s \<Rightarrow> if s = [] then d else s)"

section \<open>BacktestView: state, handlers, events\<close>

datatype freq = Freq_W_FRI | Freq_D | Freq_M

fun freq_value :: "freq \<Rightarrow> string" where
  "freq_value Freq_W_FRI = ''W-FRI''"
| "freq_value Freq_D = ''D''"
| "freq_value Freq_M = ''M''"

text \<open>The \<open>option\<close> elements of the frequency \<open>select\<close>: value and label, in order.\<close>

definition freq_options :: "(freq \<times> string) list" where
  "freq_options =
     [(Freq_W_FRI, ''Weekly (Friday)''), (Freq_D, ''Daily''), (Freq_M, ''Monthly'')]"

datatype NotificationPermission = PermDefault | PermGranted | PermDenied

text \<open>
  What outlives the component: the \<open>localStorage\<close> entry under \<open>JOB_STORAGE_KEY\<close>, the
  browser's notification permission (\<open>None\<close> when \<open>window\<close> has no \<open>Notification\<close>), and
  two logs kept for the proofs: the API requests sent so far and the titles of the
  notifications shown, oldest first.
\<close>

record browser_env =
  localStorage_job :: "string option"
  notification_permission :: "NotificationPermission option"
  requests :: "api_request list"
  notifications :: "string list"

text \<open>The timer behind \<open>pollIntervalRef\<close>: the job it polls and its period.\<close>

record poll_timer =
  timer_job :: string
  timer_ms :: nat

record BacktestView_state =
  startDate :: string
  endDate :: string
  freq :: freq
  jobId :: "string option"
  progress :: real
  currentStep :: string
  jobStatus :: "job_status option"
  backtestData :: "job_result option"
  error :: "string option"
  pollIntervalRef :: "poll_timer option"
  notificationPermissionRef :: "NotificationPermission option"
  browser :: browser_env

definition isRunning :: "BacktestView_state \<Rightarrow> bool" where
  "isRunning st = (jobStatus st = Some Running \<or> jobStatus st = Some Pending)"

definition send_request :: "api_request \<Rightarrow> BacktestView_state \<Rightarrow> BacktestView_state" where
  "send_request q st = st\<lparr> browser := (browser st)\<lparr> requests := requests (browser st) @ [q] \<rparr> \<rparr>"

definition removeItem :: "BacktestView_state \<Rightarrow> BacktestView_state" where
  "removeItem st = st\<lparr> browser := (browser st)\<lparr> localStorage_job := None \<rparr> \<rparr>"

definition setItem :: "string \<Rightarrow> BacktestView_state \<Rightarrow> BacktestView_state" where
  "setItem v st = st\<lparr> browser := (browser st)\<lparr> localStorage_job := Some v \<rparr> \<rparr>"

text \<open>
  \<open>showNotification\<close>: shown only when the permission ref is \<open>'granted'\<close> (the ref is only
  ever set when \<open>Notification\<close> exists). Only the title is logged.
\<close>

definition showNotification :: "string \<Rightarrow> BacktestView_state \<Rightarrow> BacktestView_state" where
  "showNotification title st =
     (if notificationPermissionRef st = Some PermGranted
      then st\<lparr> browser := (browser st)\<lparr> notifications := notifications (browser st) @ [title] \<rparr> \<rparr>
      else st)"

text \<open>
  \<open>checkJobStatus(id)\<close> up to its \<open>await\<close>: the status request is sent.
\<close>

definition checkJobStatus_call :: "string \<Rightarrow> BacktestView_state \<Rightarrow> BacktestView_state" where
  "checkJobStatus_call jid st = send_request (GetJobStatus jid) st"

text \<open>
  \<open>checkJobStatus(id)\<close> after its \<open>await\<close>: the request settled with a response
  (\<open>Inr\<close>) or was rejected (\<open>Inl\<close>, the \<open>message\<close> of the error, if it has one).
\<close>

definition checkJobStatus_settled ::
  "string \<Rightarrow> string option + job_status_response \<Rightarrow> BacktestView_state \<Rightarrow> BacktestView_state" where
  "checkJobStatus_settled jid r st =
     (case r of
        Inl err \<Rightarrow>
          st\<lparr> error := Some (js_or err ''Failed to check job status''),
              pollIntervalRef := None \<rparr>
      | Inr status \<Rightarrow>
          (let st1 = st\<lparr> jobStatus := Some (resp_status status),
                           progress := resp_progress status,
                           currentStep := js_or (Some (resp_current_step status)) [] \<rparr>
           in if resp_status status = Completed \<and> resp_result status \<noteq> None then
                showNotification ''Backtest Complete''
                  (removeItem (st1\<lparr> backtestData := resp_result status,
                                     jobStatus := Some Completed,
                                     pollIntervalRef := None \<rparr>))
              else if resp_status status = Failed then
                showNotification ''Backtest Failed''
                  (removeItem (st1\<lparr> error := Some (js_or (resp_error status) ''Backtest failed''),
                                     jobStatus := Some Failed,
                                     pollIntervalRef := None \<rparr>))
              else if resp_status status = Running \<or> resp_status status = Pending then
                (if pollIntervalRef st1 = None
                 then st1\<lparr> pollIntervalRef := Some \<lparr> timer_job = jid, timer_ms = 2000 \<rparr> \<rparr>
                 else st1)
              else st1))"

text \<open>The interval timer fires: \<open>() => checkJobStatus(id)\<close> for the timer's job.\<close>

definition timer_fires :: "BacktestView_state \<Rightarrow> BacktestView_state" where
  "timer_fires st =
     (case pollIntervalRef st of
        None \<Rightarrow> st
      | Some t \<Rightarrow> checkJobStatus_call (timer_job t) st)"

text \<open>\<open>handleRunBacktest\<close> up to its \<open>await\<close>, and after it.\<close>

definition handleRunBacktest_call :: "BacktestView_state \<Rightarrow> BacktestView_state" where
  "handleRunBacktest_call st =
     send_request (startBacktest (startDate st) (endDate st) (Some (freq_value (freq st))))
       (st\<lparr> error := None, backtestData := None, progress := 0, currentStep := [],
            jobStatus := None \<rparr>)"

definition handleRunBacktest_settled ::
  "string option + start_response \<Rightarrow> BacktestView_state \<Rightarrow> BacktestView_state" where
  "handleRunBacktest_settled r st =
     (case r of
        Inl err \<Rightarrow> st\<lparr> error := Some (js_or err ''Failed to start backtest'') \<rparr>
      | Inr response \<Rightarrow>
          checkJobStatus_call (start_job_id response)
            (setItem (start_job_id response)
               (st\<lparr> jobId := Some (start_job_id response), jobStatus := Some Pending \<rparr>)))"

definition handleCancel :: "BacktestView_state \<Rightarrow> BacktestView_state" where
  "handleCancel st =
     removeItem (st\<lparr> pollIntervalRef := None, jobStatus := None, progress := 0,
                      currentStep := [] \<rparr>)"

text \<open>
  Mounting the view in a browser environment: the \<open>useState\<close> initial values
  (\<open>defaultStart\<close> and \<open>defaultEnd\<close> are computed from the clock and are parameters), then
  the mount effect. \<open>if (storedJobId)\<close> is false for \<open>null\<close> and for the empty string.
\<close>

definition mount :: "string \<Rightarrow> string \<Rightarrow> browser_env \<Rightarrow> BacktestView_state" where
  "mount defaultStart defaultEnd env =
     (let st0 = \<lparr> startDate = defaultStart, endDate = defaultEnd, freq = Freq_W_FRI,
                   jobId = None, progress = 0, currentStep = [], jobStatus = None,
                   backtestData = None, error = None, pollIntervalRef = None,
                   notificationPermissionRef =
                     (case notification_permission env of
                        None \<Rightarrow> None
                      | Some PermDefault \<Rightarrow> None
                      | Some p \<Rightarrow> Some p),
                   browser = env \<rparr>
      in case localStorage_job env of
           None \<Rightarrow> st0
         | Some storedJobId \<Rightarrow>
             if storedJobId = [] then st0
             else checkJobStatus_call storedJobId (st0\<lparr> jobId := Some storedJobId \<rparr>))"

text \<open>
  What can happen to a mounted view. The state is that of one instance of the view,
  with the browser it runs in. The form controls and the Run button are disabled while
  \<open>isRunning\<close>; the Cancel button exists only while \<open>isRunning\<close>. \<open>Reload\<close> is a reload
  of the page: the component state, its interval and every callback still in flight
  are gone, and the view mounts again on the same \<open>localStorage\<close>. \<open>TimerFires\<close> is a
  tick of the interval that this instance's \<open>pollIntervalRef\<close> holds.

  Switching to another view of the application and back is not an event here: it
  mounts a fresh instance too, but a poll of the old instance that is still in flight
  then runs on the old instance's ref and may start an interval there, which this
  state does not hold.
\<close>

datatype event =
    Reload string string
  | SetStartDate string
  | SetEndDate string
  | SelectFreq freq
  | ClickRun
  | StartSettled "string option + start_response"
  | StatusSettled string "string option + job_status_response"
  | TimerFires
  | ClickCancel
  | PermissionSettled NotificationPermission

fun step :: "event \<Rightarrow> BacktestView_state \<Rightarrow> BacktestView_state" where
  "step (Reload ds de) st = mount ds de (browser st)"
| "step (SetStartDate v) st = (if isRunning st then st else st\<lparr> startDate := v \<rparr>)"
| "step (SetEndDate v) st = (if isRunning st then st else st\<lparr> endDate := v \<rparr>)"
| "step (SelectFreq f) st = (if isRunning st then st else st\<lparr> freq := f \<rparr>)"
| "step ClickRun st = (if isRunning st then st else handleRunBacktest_call st)"
| "step (StartSettled r) st = handleRunBacktest_settled r st"
| "step (StatusSettled jid r) st = checkJobStatus_settled jid r st"
| "step TimerFires st = timer_fires st"
| "step ClickCancel st = (if isRunning st then handleCancel st else st)"
| "step (PermissionSettled p) st =
     (if notification_permission (browser st) = Some PermDefault
      then st\<lparr> notificationPermissionRef := Some p,
               browser := (browser st)\<lparr> notification_permission := Some p \<rparr> \<rparr>
      else st)"

definition run :: "event list \<Rightarrow> BacktestView_state \<Rightarrow> BacktestView_state" where
  "run es st = fold step es st"

fun is_SelectFreq :: "event \<Rightarrow> bool" where
  "is_SelectFreq (SelectFreq f) = True"
| "is_SelectFreq e = False"

text \<open>A poll that ends polling: \<open>failed\<close>, or \<open>completed\<close> together with a result.\<close>

definition ends_polling :: "job_status_response \<Rightarrow> bool" where
  "ends_polling status =
     ((resp_status status = Completed \<and> resp_result status \<noteq> None) \<or> resp_status status = Failed)"

definition timers_2000 :: "BacktestView_state \<Rightarrow> bool" where
  "timers_2000 st = (case pollIntervalRef st of None \<Rightarrow> True | Some t \<Rightarrow> timer_ms t = 2000)"

section \<open>SensitivityView and sensitivityApi.runAnalysis\<close>

record SensitivityView_state =
  nRuns :: int
  noiseLevels :: "real list"
  customNoiseLevels :: string

text \<open>The \<open>useState\<close> initial values.\<close>

definition SensitivityView_init :: SensitivityView_state where
  "SensitivityView_init = \<lparr> nRuns = 100, noiseLevels = [], customNoiseLevels = [] \<rparr>"

text \<open>
  Double arithmetic, as far as \<open>i * 0.1\<close> needs it. A finite double is a mantissa and
  an exponent, \<open>Double m e\<close> standing for \<open>m * 2 ^ e\<close>. A product is the exact product
  rounded to 53 significant bits, ties to the even mantissa. The exponent range
  (overflow, subnormal numbers) is not modelled: the products below lie between 0 and 1.
\<close>

datatype double = Double int int

fun double_value :: "double \<Rightarrow> real" where
  "double_value (Double m e) = real_of_int m * 2 powi e"

text \<open>The number of binary digits of a non-negative integer.\<close>

function bit_length :: "int \<Rightarrow> nat" where
  "bit_length n = (if n \<le> 0 then 0 else Suc (bit_length (n div 2)))"
  by pat_completeness auto
termination
  by (relation "measure nat") auto

declare bit_length.simps [simp del]

definition round_to_53 :: "int \<Rightarrow> int \<Rightarrow> double" where
  "round_to_53 n e =
     (let b = bit_length \<bar>n\<bar>
      in if b \<le> 53 then Double n e
         else
           (let s = b - 53; d = 2 ^ s; q = n div d; r = n mod d;
                m = (if 2 * r < d then q else if d < 2 * r then q + 1
                     else if even q then q else q + 1)
            in Double m (e + int s)))"

fun double_times :: "double \<Rightarrow> double \<Rightarrow> double" where
  "double_times (Double m1 e1) (Double m2 e2) = round_to_53 (m1 * m2) (e1 + e2)"

text \<open>The index \<open>i\<close> as a double, and the literal \<open>0.1\<close>: the double nearest to 1/10.\<close>

definition double_of_index :: "nat \<Rightarrow> double" where
  "double_of_index i = Double (int i) 0"

definition double_0_1 :: double where
  "double_0_1 = Double 7205759403792794 (- 56)"

text \<open>\<open>Array.from({ length: 11 }, (_, i) => i * 0.1)\<close>\<close>

definition defaultNoiseLevels :: "real list" where
  "defaultNoiseLevels =
     map (\<lambda>i. double_value (double_times (double_of_index i) double_0_1)) [0..<11]"

text \<open>
  The Monte Carlo Runs input: \<open>setNRuns(parseInt(e.target.value) || 100)\<close>. \<open>parseInt\<close> is
  the platform's; its result is an integer or \<open>NaN\<close> (\<open>None\<close>), and \<open>NaN\<close> and 0 are falsy.
\<close>

definition nRuns_onChange :: "int option \<Rightarrow> SensitivityView_state \<Rightarrow> SensitivityView_state" where
  "nRuns_onChange parsed st =
     st\<lparr> nRuns := (case parsed of None \<Rightarrow> 100 | Some n \<Rightarrow> if n = 0 then 100 else n) \<rparr>"

text \<open>
  \<open>handleCustomNoiseLevels(value)\<close>: \<open>parsed\<close> is
  \<open>value.split(',').map(s => parseFloat(s.trim()))\<close>, with \<open>None\<close> for \<open>NaN\<close>.
\<close>

fun drop_NaN :: "real option list \<Rightarrow> real list" where
  "drop_NaN [] = []"
| "drop_NaN (None # ns) = drop_NaN ns"
| "drop_NaN (Some n # ns) = n # drop_NaN ns"

definition handleCustomNoiseLevels ::
  "string \<Rightarrow> real option list \<Rightarrow> SensitivityView_state \<Rightarrow> SensitivityView_state" where
  "handleCustomNoiseLevels v parsed st =
     (let levels = drop_NaN parsed
      in if length levels > 0
         then st\<lparr> customNoiseLevels := v, noiseLevels := levels \<rparr>
         else st\<lparr> customNoiseLevels := v, noiseLevels := [] \<rparr>)"

text \<open>The body posted to \<open>/sensitivity-analysis\<close>; \<open>noise_levels\<close> may be \<open>undefined\<close>.\<close>

record sensitivity_request =
  noise_levels :: "real list option"
  n_runs :: int

text \<open>\<open>runAnalysis(noiseLevels?, nRuns = 100)\<close>\<close>

definition runAnalysis :: "real list option \<Rightarrow> int option \<Rightarrow> sensitivity_request" where
  "runAnalysis noiseLevels_arg nRuns_arg =
     \<lparr> noise_levels = noiseLevels_arg,
       n_runs = (case nRuns_arg of None \<Rightarrow> 100 | Some n \<Rightarrow> n) \<rparr>"

text \<open>The view's \<open>queryFn\<close>, and the noise levels in its \<open>queryKey\<close>.\<close>

definition queryFn :: "SensitivityView_state \<Rightarrow> sensitivity_request" where
  "queryFn st =
     runAnalysis (if length (noiseLevels st) > 0 then Some (noiseLevels st) else None)
                 (Some (nRuns st))"

definition queryKey_levels :: "SensitivityView_state \<Rightarrow> real list" where
  "queryKey_levels st =
     (if length (noiseLevels st) > 0 then noiseLevels st else defaultNoiseLevels)"

text \<open>
  What the user can do before running the analysis: edit the Monte Carlo Runs input
  (with what \<open>parseInt\<close> makes of the text) and edit the noise levels input (with the
  text and what \<open>parseFloat\<close> makes of its comma-separated parts). The user supplies
  noise levels with an edit that leaves at least one number.
\<close>

datatype sensitivity_event =
    ChangeRuns "int option"
  | ChangeNoiseLevels string "real option list"

fun sensitivity_step :: "sensitivity_event \<Rightarrow> SensitivityView_state \<Rightarrow> SensitivityView_state" where
  "sensitivity_step (ChangeRuns parsed) st = nRuns_onChange parsed st"
| "sensitivity_step (ChangeNoiseLevels v parsed) st = handleCustomNoiseLevels v parsed st"

definition sensitivity_run ::
  "sensitivity_event list \<Rightarrow> SensitivityView_state \<Rightarrow> SensitivityView_state" where
  "sensitivity_run es st = fold sensitivity_step es st"

fun supplies_levels :: "sensitivity_event \<Rightarrow> bool" where
  "supplies_levels (ChangeNoiseLevels v parsed) = (drop_NaN parsed \<noteq> [])"
| "supplies_levels (ChangeRuns parsed) = False"

fun is_ChangeRuns :: "sensitivity_event \<Rightarrow> bool" where
  "is_ChangeRuns (ChangeRuns parsed) = True"
| "is_ChangeRuns (ChangeNoiseLevels v parsed) = False"

text \<open>
  Modelled from the spec: the sensitivity engine behind \<open>/sensitivity-analysis\<close>, which is
  not among the sources. "Input: an ordered list of noise levels (default 0.0 through
  1.0 in steps of 0.1) and a trial count per level (default 100)." The engine's inputs
  for a request: the request's levels, or the default list when it carries none, and
  the request's trial count. The default list is taken as the spec writes it, in
  decimals.
\<close>

definition spec_default_noise_levels :: "real list" where
  "spec_default_noise_levels = [0.0, 0.1, 0.2, 0.3, 0.4, 0.5, 0.6, 0.7, 0.8, 0.9, 1.0]"

definition spec_engine_inputs :: "sensitivity_request \<Rightarrow> real list \<times> int" where
  "spec_engine_inputs req =
     (case noise_levels req of None \<Rightarrow> spec_default_noise_levels | Some ls \<Rightarrow> ls, n_runs req)"

section \<open>The application store (store/appStore.ts)\<close>

datatype View = View_dashboard | View_backtest | View_sensitivity | View_historical

text \<open>A JavaScript \<open>Date\<close>: a time value in milliseconds, or an Invalid Date.\<close>

datatype js_date = Date int | InvalidDate

text \<open>
  \<open>currentDate\<close> is typed \<open>Date\<close>, but between the merge of the stored object and the
  rehydration listener it holds the stored ISO string.
\<close>

datatype date_field = DateObj js_date | DateStr string

record AppState =
  currentDate :: date_field
  activeView :: View
  selectedCountry :: "string option"
  useOptimizedModel :: bool

text \<open>The initial state; \<open>now\<close> is \<open>new Date()\<close>.\<close>

definition initial_AppState :: "int \<Rightarrow> AppState" where
  "initial_AppState now =
     \<lparr> currentDate = DateObj (Date now), activeView = View_dashboard,
       selectedCountry = None, useOptimizedModel = True \<rparr>"

text \<open>The object that \<open>partialize\<close> returns and that is stored as JSON.\<close>

record persisted_state =
  p_currentDate :: string
  p_activeView :: View
  p_useOptimizedModel :: bool

text \<open>
  \<open>toISOString\<close> is the platform's: the parameter \<open>toISOString\<close> gives the string for a
  valid time value. On an Invalid Date it throws a RangeError; a string has no such
  method (TypeError).
\<close>

definition partialize :: "(int \<Rightarrow> string) \<Rightarrow> AppState \<Rightarrow> js_error + persisted_state" where
  "partialize toISOString st =
     (case currentDate st of
        DateObj (Date t) \<Rightarrow>
          Inr \<lparr> p_currentDate = toISOString t, p_activeView = activeView st,
                p_useOptimizedModel = useOptimizedModel st \<rparr>
      | DateObj InvalidDate \<Rightarrow> Inl RangeError
      | DateStr s \<Rightarrow> Inl TypeError)"

text \<open>
  The listener returned by \<open>onRehydrateStorage\<close>. \<open>new Date(x)\<close> is the platform's: the
  parameter \<open>parseDate\<close> for a string; for a \<open>Date\<close> it copies the time value. A \<open>Date\<close>
  object is truthy, a string is truthy unless empty.
\<close>

definition onRehydrateStorage :: "(string \<Rightarrow> js_date) \<Rightarrow> AppState \<Rightarrow> AppState" where
  "onRehydrateStorage parseDate st =
     (case currentDate st of
        DateObj d \<Rightarrow> st\<lparr> currentDate := DateObj d \<rparr>
      | DateStr s \<Rightarrow> if s = [] then st else st\<lparr> currentDate := DateObj (parseDate s) \<rparr>)"

text \<open>
  The \<open>persist\<close> middleware is zustand's, a dependency and not code of the repository;
  it is modelled by its documented contract. What it does with the options given here:
  after every \<open>set\<close> it stores \<open>partialize(state)\<close> under the store's name (an exception
  thrown by \<open>partialize\<close> leaves the stored value as it was); on hydration it spreads the
  stored object, if there is one, over the initial state and then calls the
  rehydration listener on the result.
\<close>

definition persist_setItem ::
  "(int \<Rightarrow> string) \<Rightarrow> AppState \<Rightarrow> persisted_state option \<Rightarrow> js_error + persisted_state option" where
  "persist_setItem toISOString st storage =
     (case partialize toISOString st of Inl e \<Rightarrow> Inl e | Inr p \<Rightarrow> Inr (Some p))"

definition persist_merge :: "persisted_state option \<Rightarrow> AppState \<Rightarrow> AppState" where
  "persist_merge storage cur =
     (case storage of
        None \<Rightarrow> cur
      | Some p \<Rightarrow> cur\<lparr> currentDate := DateStr (p_currentDate p),
                       activeView := p_activeView p,
                       useOptimizedModel := p_useOptimizedModel p \<rparr>)"

definition rehydrate :: "(string \<Rightarrow> js_date) \<Rightarrow> int \<Rightarrow> persisted_state option \<Rightarrow> AppState" where
  "rehydrate parseDate now storage =
     onRehydrateStorage parseDate (persist_merge storage (initial_AppState now))"

section \<open>Example inputs\<close>

text \<open>A browser with nothing stored, a submitted job, and three status responses.\<close>

definition ex_env :: browser_env where
  "ex_env = \<lparr> localStorage_job = None, notification_permission = Some PermGranted,
              requests = [], notifications = [] \<rparr>"

definition ex_start :: start_response where
  "ex_start = \<lparr> start_job_id = ''job-1'', start_status = ''pending'',
                start_message = ''Backtest started'' \<rparr>"

definition ex_running :: job_status_response where
  "ex_running = \<lparr> resp_job_id = ''job-1'', resp_status = Running, resp_progress = 0.5,
                  resp_current_step = ''Processing'', resp_current_step_num = 6,
                  resp_total_steps = 13, resp_result = None, resp_error = None \<rparr>"

definition ex_result :: job_result where
  "ex_result =
     \<lparr> results = [],
       summary = \<lparr> summary_total_weeks = 13, summary_accuracy = 0.5,
                   hawk_weeks_predicted = 4, actual_risk_off_weeks = 5 \<rparr>,
       total_weeks = 13, accuracy = 0.5 \<rparr>"

definition ex_completed :: job_status_response where
  "ex_completed = ex_running\<lparr> resp_status := Completed, resp_progress := 1,
                              resp_result := Some ex_result \<rparr>"

definition ex_completed_no_result :: job_status_response where
  "ex_completed_no_result = ex_running\<lparr> resp_status := Completed, resp_progress := 1 \<rparr>"

text \<open>
  The view after a reload-free session: mounted, Run clicked, the submission answered
  with job \<open>job-1\<close>, and a first poll that saw the job running.
\<close>

definition ex_polling :: BacktestView_state where
  "ex_polling =
     run [ClickRun, StartSettled (Inr ex_start), StatusSettled ''job-1'' (Inr ex_running)]
         (mount ''2024-01-01'' ''2024-03-31'' ex_env)"

text \<open>
  A view that mounts with job \<open>job-1\<close> stored and, before the resumed poll is answered,
  submits job \<open>job-2\<close>; then the poll of \<open>job-1\<close> is answered \<open>running\<close> and after it the
  poll of \<open>job-2\<close> is answered \<open>pending\<close>.
\<close>

definition ex_pending_2 :: job_status_response where
  "ex_pending_2 = ex_running\<lparr> resp_job_id := ''job-2'', resp_status := Pending,
                              resp_progress := 0 \<rparr>"

definition ex_two_jobs :: BacktestView_state where
  "ex_two_jobs =
     run [ClickRun, StartSettled (Inr (ex_start\<lparr> start_job_id := ''job-2'' \<rparr>)),
          StatusSettled ''job-1'' (Inr ex_running), StatusSettled ''job-2'' (Inr ex_pending_2)]
         (mount ''2024-01-01'' ''2024-03-31'' (ex_env\<lparr> localStorage_job := Some ''job-1'' \<rparr>))"

text \<open>
  Two backtest records, the first predicted rightly and the second wrongly, and a
  stand-in for date-fns' \<open>format\<close> that rejects the empty date.
\<close>

definition ex_record :: BacktestResult where
  "ex_record = \<lparr> date = ''2024-01-05'', predicted_scenario = ''Hawkish'',
                 actual_risk_off_next_week = True, hawk_dominant = True,
                 japan_action = ''Hawkish'', china_action = ''Hawkish'',
                 usa_action = ''Hawkish'', germany_action = ''De-escalate'',
                 taiwan_action = ''De-escalate'' \<rparr>"

definition ex_backtest :: job_result where
  "ex_backtest =
     ex_result\<lparr> results := [ex_record,
                              ex_record\<lparr> date := ''2024-01-12'', hawk_dominant := False \<rparr>] \<rparr>"

definition ex_format :: "string \<Rightarrow> string \<Rightarrow> js_error + string" where
  "ex_format s pattern = (if s = [] then Inl RangeError else Inr s)"

text \<open>A stand-in for the platform's ISO date text and its parser, for examples only.\<close>

definition ex_toISOString :: "int \<Rightarrow> string" where
  "ex_toISOString t =
     (if t < 0 then CHR ''-'' # replicate (nat (- t)) (CHR ''I'')
      else CHR ''+'' # replicate (nat t) (CHR ''I''))"

definition ex_parseDate :: "string \<Rightarrow> js_date" where
  "ex_parseDate s =
     (case s of
        [] \<Rightarrow> InvalidDate
      | c # r \<Rightarrow> if c = CHR ''-'' then Date (- int (length r)) else Date (int (length r)))"

definition ex_app :: AppState where
  "ex_app = \<lparr> currentDate = DateObj (Date 3), activeView = View_backtest,
              selectedCountry = Some ''Japan'', useOptimizedModel = False \<rparr>"

section \<open>Properties\<close>

lemma fold_max_eq_Max: "fold max xs (x::real) = Max (set (x # xs))"
  by (rule Max.set_eq_fold [symmetric])

lemma Math_max_eq_Max: "strategy \<noteq> [] \<Longrightarrow> Math_max strategy = Some (Max (set strategy))"
proof (cases strategy)
  case Nil
  then show "strategy \<noteq> [] \<Longrightarrow> ?thesis" by simp
next
  case (Cons x xs)
  show ?thesis by (simp only: Cons Math_max.simps fold_max_eq_Max)
qed

subsection \<open>formatPrice\<close>

text \<open>
  Claim C10. \<open>formatPrice\<close> returns \<open>'N/A'\<close> exactly when the price is \<open>null\<close> or equal to
  0; for every other price it returns the locale-formatted number with at most 0 fraction
  digits above 10000, at most 2 above 100 and at most 4 otherwise; so a price of exactly
  0 is rendered like missing data. The platform's formatter is a parameter, of which
  only one thing is assumed: a formatted number is never the text \<open>'N/A'\<close>.
\<close>

theorem formatPrice_na_iff:
  assumes "\<forall>x k. toLocaleString x k \<noteq> ''N/A''"
  shows "(formatPrice toLocaleString price = ''N/A'' \<longleftrightarrow> price = None \<or> price = Some 0)
       \<and> (\<forall>x. price = Some x \<and> x \<noteq> 0 \<longrightarrow>
             formatPrice toLocaleString price =
               toLocaleString x (if x > 10000 then 0 else if x > 100 then 2 else 4))
       \<and> formatPrice toLocaleString (Some 0) = formatPrice toLocaleString None"
  using assms by (cases price) (simp_all add: formatPrice_def)

theorem formatPrice_na_iff_witness:
  "(\<forall>x k. (\<lambda>(x::real) (k::nat). if k = 0 then ''12,345'' else if k = 2 then ''250.5'' else ''0.0625'') x k \<noteq> ''N/A'')
   \<and> formatPrice (\<lambda>x k. if k = 0 then ''12,345'' else if k = 2 then ''250.5'' else ''0.0625'') (Some 12345) = ''12,345''
   \<and> formatPrice (\<lambda>x k. if k = 0 then ''12,345'' else if k = 2 then ''250.5'' else ''0.0625'') (Some 0) = ''N/A''"
proof -
  let ?f = "\<lambda>(x::real) (k::nat). if k = 0 then ''12,345'' else if k = 2 then ''250.5'' else ''0.0625''"
  have h: "\<forall>x k. ?f x k \<noteq> ''N/A''" by simp
  have t1: "formatPrice ?f (Some 12345) = ?f 12345 0"
    using formatPrice_na_iff [OF h, of "Some 12345"] by simp
  have t3: "formatPrice ?f (Some 0) = ''N/A''"
    using formatPrice_na_iff [OF h, of "Some 0"] by simp
  show ?thesis using h t1 t3 by simp
qed

subsection \<open>Backtest records: correctness flag and accuracy distribution\<close>

lemma correct_incorrect_sum:
  "length (filter (\<lambda>r. hawk_dominant r = actual_risk_off_next_week r) xs)
   + length (filter (\<lambda>r. hawk_dominant r \<noteq> actual_risk_off_next_week r) xs) = length xs"
  by (rule sum_length_filter_compl)

lemma array_map_Inr:
  "array_map f xs = Inr ys \<Longrightarrow> list_all2 (\<lambda>x y. f x = Inr y) xs ys"
  by (induction xs arbitrary: ys) (auto split: sum.splits)

lemma table_rows_flags:
  "list_all2 (\<lambda>r row. table_row_of format_date r = Inr row) xs rows \<Longrightarrow>
     map tr_isCorrect rows = map (\<lambda>r. hawk_dominant r = actual_risk_off_next_week r) xs
   \<and> map tr_label rows
       = map (\<lambda>r. if hawk_dominant r = actual_risk_off_next_week r then ''Correct''
                   else ''Incorrect'') xs"
  by (induction xs rows rule: list_all2_induct)
     (auto simp: table_row_of_def Let_def split: sum.splits)

lemma chart_points_accuracy:
  "list_all2 (\<lambda>r pt. chart_point_of format_date r = Inr pt) xs pts \<Longrightarrow>
     map cp_accuracy pts
       = map (\<lambda>r. if hawk_dominant r = actual_risk_off_next_week r then 1 else 0) xs"
  by (induction xs pts rule: list_all2_induct)
     (auto simp: chart_point_of_def split: sum.splits)

lemma count_correct_flags:
  "length (filter (\<lambda>b. b) (map (\<lambda>r. hawk_dominant r = actual_risk_off_next_week r) xs))
     = length (filter (\<lambda>r. hawk_dominant r = actual_risk_off_next_week r) xs)"
  by (induction xs) simp_all

lemma sum_correct_points:
  "sum_list (map (\<lambda>r. if hawk_dominant r = actual_risk_off_next_week r then 1 else 0) xs)
     = length (filter (\<lambda>r. hawk_dominant r = actual_risk_off_next_week r) xs)"
  by (induction xs) simp_all

text \<open>
  Claim C4. For every list of backtest records, a record is flagged, displayed and
  counted as Correct if and only if its \<open>hawk_dominant\<close> flag equals its
  \<open>actual_risk_off_next_week\<close> outcome, and the Correct and Incorrect counts of the
  accuracy distribution add up to the number of records. Whenever the table and the
  chart render (every date formats), they have one row and one point per record, the
  rows flagged Correct are as many as the Correct count, and the chart's points are 1 for
  exactly those records.
\<close>

theorem accuracy_partition:
  "map fst (accuracyData (Some d)) = [''Correct'', ''Incorrect'']
   \<and> snd (accuracyData (Some d) ! 0) + snd (accuracyData (Some d) ! 1) = length (results d)
   \<and> snd (accuracyData (Some d) ! 0)
       = length (filter (\<lambda>r. hawk_dominant r = actual_risk_off_next_week r) (results d))
   \<and> (results_table format_date (Some d) = Inr rows \<longrightarrow>
        length rows = length (results d)
      \<and> map tr_isCorrect rows
          = map (\<lambda>r. hawk_dominant r = actual_risk_off_next_week r) (results d)
      \<and> map tr_label rows
          = map (\<lambda>r. if hawk_dominant r = actual_risk_off_next_week r then ''Correct''
                      else ''Incorrect'') (results d)
      \<and> length (filter (\<lambda>b. b) (map tr_isCorrect rows)) = snd (accuracyData (Some d) ! 0))
   \<and> (chartData format_date (Some d) = Inr pts \<longrightarrow>
        length pts = length (results d)
      \<and> map cp_accuracy pts
          = map (\<lambda>r. if hawk_dominant r = actual_risk_off_next_week r then 1 else 0) (results d)
      \<and> sum_list (map cp_accuracy pts) = snd (accuracyData (Some d) ! 0))"
proof -
  have a: "map fst (accuracyData (Some d)) = [''Correct'', ''Incorrect'']"
    by (simp add: accuracyData_def)
  have b: "snd (accuracyData (Some d) ! 0) + snd (accuracyData (Some d) ! 1) = length (results d)"
    unfolding accuracyData_def using correct_incorrect_sum [of "results d"] by simp
  have c: "snd (accuracyData (Some d) ! 0)
           = length (filter (\<lambda>r. hawk_dominant r = actual_risk_off_next_week r) (results d))"
    by (simp add: accuracyData_def)
  have t: "results_table format_date (Some d) = Inr rows \<longrightarrow>
        length rows = length (results d)
      \<and> map tr_isCorrect rows
          = map (\<lambda>r. hawk_dominant r = actual_risk_off_next_week r) (results d)
      \<and> map tr_label rows
          = map (\<lambda>r. if hawk_dominant r = actual_risk_off_next_week r then ''Correct''
                      else ''Incorrect'') (results d)
      \<and> length (filter (\<lambda>b. b) (map tr_isCorrect rows)) = snd (accuracyData (Some d) ! 0)"
  proof
    assume "results_table format_date (Some d) = Inr rows"
    then have l: "list_all2 (\<lambda>r row. table_row_of format_date r = Inr row) (results d) rows"
      by (simp add: results_table_def array_map_Inr)
    from l have n: "length rows = length (results d)"
      by (simp add: list_all2_lengthD)
    note f = table_rows_flags [OF l]
    from f have k: "length (filter (\<lambda>b. b) (map tr_isCorrect rows)) = snd (accuracyData (Some d) ! 0)"
      by (simp only: c count_correct_flags)
    from n f k show "length rows = length (results d)
      \<and> map tr_isCorrect rows
          = map (\<lambda>r. hawk_dominant r = actual_risk_off_next_week r) (results d)
      \<and> map tr_label rows
          = map (\<lambda>r. if hawk_dominant r = actual_risk_off_next_week r then ''Correct''
                      else ''Incorrect'') (results d)
      \<and> length (filter (\<lambda>b. b) (map tr_isCorrect rows)) = snd (accuracyData (Some d) ! 0)"
      by blast
  qed
  have p: "chartData format_date (Some d) = Inr pts \<longrightarrow>
        length pts = length (results d)
      \<and> map cp_accuracy pts
          = map (\<lambda>r. if hawk_dominant r = actual_risk_off_next_week r then 1 else 0) (results d)
      \<and> sum_list (map cp_accuracy pts) = snd (accuracyData (Some d) ! 0)"
  proof
    assume "chartData format_date (Some d) = Inr pts"
    then have l: "list_all2 (\<lambda>r pt. chart_point_of format_date r = Inr pt) (results d) pts"
      by (simp add: chartData_def array_map_Inr)
    from l have n: "length pts = length (results d)"
      by (simp add: list_all2_lengthD)
    note f = chart_points_accuracy [OF l]
    from f have k: "sum_list (map cp_accuracy pts) = snd (accuracyData (Some d) ! 0)"
      by (simp only: c sum_correct_points)
    from n f k show "length pts = length (results d)
      \<and> map cp_accuracy pts
          = map (\<lambda>r. if hawk_dominant r = actual_risk_off_next_week r then 1 else 0) (results d)
      \<and> sum_list (map cp_accuracy pts) = snd (accuracyData (Some d) ! 0)"
      by blast
  qed
  from a b c t p show ?thesis by blast
qed

theorem accuracy_partition_witness:
  "results_table ex_format (Some ex_backtest)
     = Inr [\<lparr> tr_date = ''2024-01-05'', tr_isCorrect = True, tr_label = ''Correct'' \<rparr>,
            \<lparr> tr_date = ''2024-01-12'', tr_isCorrect = False, tr_label = ''Incorrect'' \<rparr>]
   \<and> accuracyData (Some ex_backtest) = [(''Correct'', 1), (''Incorrect'', 1)]
   \<and> length (filter (\<lambda>b. b) (map tr_isCorrect
         [\<lparr> tr_date = ''2024-01-05'', tr_isCorrect = True, tr_label = ''Correct'' \<rparr>,
          \<lparr> tr_date = ''2024-01-12'', tr_isCorrect = False, tr_label = ''Incorrect'' \<rparr>]))
       = snd (accuracyData (Some ex_backtest) ! 0)"
proof -
  let ?rows = "[\<lparr> tr_date = ''2024-01-05'', tr_isCorrect = True, tr_label = ''Correct'' \<rparr>,
                \<lparr> tr_date = ''2024-01-12'', tr_isCorrect = False, tr_label = ''Incorrect'' \<rparr>]"
  have h: "results_table ex_format (Some ex_backtest) = Inr ?rows"
    by (simp add: results_table_def table_row_of_def ex_format_def ex_backtest_def
          ex_record_def ex_result_def Let_def)
  have a: "accuracyData (Some ex_backtest) = [(''Correct'', 1), (''Incorrect'', 1)]"
    by (simp add: accuracyData_def ex_backtest_def ex_record_def ex_result_def)
  from accuracy_partition [where d = ex_backtest and format_date = ex_format and rows = ?rows] h
  have "length (filter (\<lambda>b. b) (map tr_isCorrect ?rows)) = snd (accuracyData (Some ex_backtest) ! 0)"
    by blast
  with h a show ?thesis by blast
qed

subsection \<open>PredictionMatrix: the dominant cells\<close>

lemma row_cells_length: "length (row_cells s) = length s"
  by (simp add: row_cells_def)

lemma row_cells_nth:
  "a < length s \<Longrightarrow>
   row_cells s ! a = \<lparr> cell_prob = s ! a, cell_isDominant = (s ! a = Max (set s)) \<rparr>"
  by (cases "s = []") (simp_all add: row_cells_def Math_max_eq_Max)

lemma Max_attained: "s \<noteq> [] \<Longrightarrow> \<exists>a < length s. s ! a = Max (set (s::real list))"
  by (metis Max_in List.finite_set in_set_conv_nth set_empty)

text \<open>
  Claim C6. In every rendered actor row of the prediction matrix, an action cell is
  marked dominant if and only if its probability equals the maximum of the actor's
  strategy vector; so a cell with the highest probability is always marked (one exists
  when the vector is not empty), and every cell tying with it is marked too.
\<close>

theorem prediction_matrix_dominant_iff_max:
  assumes "PredictionMatrix_rows equilibrium = Inr rows" and "p < length rows"
  shows "length rows = length (parties equilibrium)
       \<and> row_party (rows ! p) = parties equilibrium ! p
       \<and> length (row_cellsr (rows ! p)) = length (strategies equilibrium ! p)
       \<and> (\<forall>a < length (strategies equilibrium ! p).
            cell_prob (row_cellsr (rows ! p) ! a) = strategies equilibrium ! p ! a
          \<and> (cell_isDominant (row_cellsr (rows ! p) ! a)
               \<longleftrightarrow> strategies equilibrium ! p ! a = Max (set (strategies equilibrium ! p))))
       \<and> (strategies equilibrium ! p \<noteq> [] \<longrightarrow>
            (\<exists>a < length (strategies equilibrium ! p).
               strategies equilibrium ! p ! a = Max (set (strategies equilibrium ! p))
             \<and> cell_isDominant (row_cellsr (rows ! p) ! a)))"
proof -
  from assms(1) have le: "length (parties equilibrium) \<le> length (strategies equilibrium)"
    and rows: "rows = map (\<lambda>(party, strategy). \<lparr> row_party = party, row_cellsr = row_cells strategy \<rparr>)
                    (zip (parties equilibrium) (strategies equilibrium))"
    by (auto simp: PredictionMatrix_rows_def split: if_splits)
  from rows le have len: "length rows = length (parties equilibrium)" by simp
  with assms(2) le have p1: "p < length (parties equilibrium)"
    and p2: "p < length (strategies equilibrium)"
    by simp_all
  let ?s = "strategies equilibrium ! p"
  from rows p1 p2
  have row: "rows ! p = \<lparr> row_party = parties equilibrium ! p, row_cellsr = row_cells ?s \<rparr>"
    by simp
  have cells: "\<forall>a < length ?s. cell_prob (row_cells ?s ! a) = ?s ! a
                 \<and> (cell_isDominant (row_cells ?s ! a) \<longleftrightarrow> ?s ! a = Max (set ?s))"
    by (simp add: row_cells_nth)
  have ex: "?s \<noteq> [] \<longrightarrow>
              (\<exists>a < length ?s. ?s ! a = Max (set ?s) \<and> cell_isDominant (row_cells ?s ! a))"
  proof
    assume "?s \<noteq> []"
    then obtain a where "a < length ?s" and "?s ! a = Max (set ?s)"
      using Max_attained [of ?s] by blast
    then have "a < length ?s \<and> ?s ! a = Max (set ?s) \<and> cell_isDominant (row_cells ?s ! a)"
      by (simp add: row_cells_nth)
    then show "\<exists>a < length ?s. ?s ! a = Max (set ?s) \<and> cell_isDominant (row_cells ?s ! a)"
      by blast
  qed
  show ?thesis using len row cells ex by (simp add: row_cells_length)
qed

theorem prediction_matrix_dominant_iff_max_witness:
  "PredictionMatrix_rows
       \<lparr> parties = [''USA'', ''China''], actions = [''Hawkish'', ''De-escalate''],
         strategies = [[0.5, 0.5], [0.2, 0.8]] \<rparr>
     = Inr [\<lparr> row_party = ''USA'', row_cellsr = row_cells [0.5, 0.5] \<rparr>,
            \<lparr> row_party = ''China'', row_cellsr = row_cells [0.2, 0.8] \<rparr>]
   \<and> (1::nat) < length [\<lparr> row_party = ''USA'', row_cellsr = row_cells [0.5, 0.5] \<rparr>,
                        \<lparr> row_party = ''China'', row_cellsr = row_cells [0.2, 0.8] \<rparr>]
   \<and> (\<exists>a < 2. [0.2, 0.8::real] ! a = Max (set [0.2, 0.8])
              \<and> cell_isDominant (row_cells [0.2, 0.8] ! a))"
proof -
  let ?E = "\<lparr> parties = [''USA'', ''China''], actions = [''Hawkish'', ''De-escalate''],
              strategies = [[0.5, 0.5], [0.2, 0.8::real]] \<rparr>"
  let ?R = "[\<lparr> row_party = ''USA'', row_cellsr = row_cells [0.5, 0.5] \<rparr>,
             \<lparr> row_party = ''China'', row_cellsr = row_cells [0.2, 0.8] \<rparr>]"
  have h1: "PredictionMatrix_rows ?E = Inr ?R"
    by (simp add: PredictionMatrix_rows_def)
  have h2: "(1::nat) < length ?R" by simp
  from prediction_matrix_dominant_iff_max [OF h1 h2]
  have "strategies ?E ! 1 \<noteq> [] \<longrightarrow>
          (\<exists>a < length (strategies ?E ! 1).
             strategies ?E ! 1 ! a = Max (set (strategies ?E ! 1))
           \<and> cell_isDominant (row_cellsr (?R ! 1) ! a))"
    by blast
  then have "\<exists>a < 2. [0.2, 0.8::real] ! a = Max (set [0.2, 0.8])
              \<and> cell_isDominant (row_cells [0.2, 0.8] ! a)"
    by (simp add: numeral_2_eq_2)
  with h1 h2 show ?thesis by blast
qed

subsection \<open>The job-status interface\<close>

lemma range_status_text: "range status_text = set client_job_statuses"
proof
  show "range status_text \<subseteq> set client_job_statuses"
  proof
    fix x assume "x \<in> range status_text"
    then obtain s where "x = status_text s" by blast
    then show "x \<in> set client_job_statuses"
      by (cases s) (simp_all add: client_job_statuses_def)
  qed
  show "set client_job_statuses \<subseteq> range status_text"
    by (simp only: client_job_statuses_def set_map image_mono subset_UNIV)
qed

text \<open>
  Claim C1, as stated: the client's job-status interface covers exactly the set
  {pending, running, completed, failed, cancelled}. It does not: \<open>cancelled\<close> is in the
  specification's set and is not a status of the client's interface.
\<close>

theorem client_statuses_counterexample:
  "''cancelled'' \<in> set spec_job_statuses \<and> ''cancelled'' \<notin> set client_job_statuses"
  by (simp add: spec_job_statuses_def client_job_statuses_def)

text \<open>
  Claim C1, amended. Every status of the client's job-status interface belongs to the
  set {pending, running, completed, failed, cancelled}; the interface covers exactly
  the four statuses pending, running, completed and failed, that is, the
  specification's set without \<open>cancelled\<close>.
\<close>

theorem client_statuses_subset_of_spec:
  "status_text s \<in> set spec_job_statuses
   \<and> range status_text = set client_job_statuses
   \<and> client_job_statuses = [''pending'', ''running'', ''completed'', ''failed'']
   \<and> set client_job_statuses = set spec_job_statuses - {''cancelled''}"
proof -
  have a: "status_text s \<in> set spec_job_statuses"
    by (cases s) (simp_all add: spec_job_statuses_def)
  have c: "client_job_statuses = [''pending'', ''running'', ''completed'', ''failed'']"
    by (simp add: client_job_statuses_def)
  have d: "set client_job_statuses = set spec_job_statuses - {''cancelled''}"
    by (auto simp: c spec_job_statuses_def)
  from a c d range_status_text show ?thesis by blast
qed

subsection \<open>Sensitivity analysis: the defaults\<close>

lemma upt_11: "[0..<11] = [0, 1, 2, 3, 4, 5, 6, 7, 8, 9, 10]"
  by code_simp

lemma index_products:
  "map (\<lambda>i. double_times (double_of_index i) double_0_1) [0, 1, 2, 3, 4, 5, 6, 7, 8, 9, 10]
   = [Double 0 (- 56), Double 7205759403792794 (- 56), Double 7205759403792794 (- 55),
      Double 5404319552844596 (- 54), Double 7205759403792794 (- 54),
      Double 4503599627370496 (- 53), Double 5404319552844596 (- 53),
      Double 6305039478318695 (- 53), Double 7205759403792794 (- 53),
      Double 8106479329266893 (- 53), Double 4503599627370496 (- 52)]"
  by code_simp

lemma defaultNoiseLevels_doubles:
  "defaultNoiseLevels
   = map double_value
       [Double 0 (- 56), Double 7205759403792794 (- 56), Double 7205759403792794 (- 55),
        Double 5404319552844596 (- 54), Double 7205759403792794 (- 54),
        Double 4503599627370496 (- 53), Double 5404319552844596 (- 53),
        Double 6305039478318695 (- 53), Double 7205759403792794 (- 53),
        Double 8106479329266893 (- 53), Double 4503599627370496 (- 52)]"
proof -
  have "defaultNoiseLevels
        = map double_value
            (map (\<lambda>i. double_times (double_of_index i) double_0_1)
                 [0, 1, 2, 3, 4, 5, 6, 7, 8, 9, 10])"
    by (simp only: defaultNoiseLevels_def upt_11 map_map comp_def)
  then show ?thesis by (simp only: index_products)
qed

lemma double_value_neg: "double_value (Double m (- int k)) = real_of_int m / 2 ^ k"
  by (simp add: power_int_minus divide_inverse)

lemma two_power_57: "(2::real) ^ 57 = 144115188075855872"
  by simp
lemma two_power_56: "(2::real) ^ 56 = 72057594037927936"
  by simp
lemma two_power_55: "(2::real) ^ 55 = 36028797018963968"
  by simp
lemma two_power_54: "(2::real) ^ 54 = 18014398509481984"
  by simp
lemma two_power_53: "(2::real) ^ 53 = 9007199254740992"
  by simp
lemma two_power_52: "(2::real) ^ 52 = 4503599627370496"
  by simp

lemma double_values:
  "double_value (Double 0 (- 56)) = 0"
  "double_value (Double 7205759403792794 (- 56)) = 7205759403792794 / 72057594037927936"
  "double_value (Double 7205759403792794 (- 55)) = 7205759403792794 / 36028797018963968"
  "double_value (Double 5404319552844596 (- 54)) = 5404319552844596 / 18014398509481984"
  "double_value (Double 7205759403792794 (- 54)) = 7205759403792794 / 18014398509481984"
  "double_value (Double 4503599627370496 (- 53)) = 4503599627370496 / 9007199254740992"
  "double_value (Double 5404319552844596 (- 53)) = 5404319552844596 / 9007199254740992"
  "double_value (Double 6305039478318695 (- 53)) = 6305039478318695 / 9007199254740992"
  "double_value (Double 7205759403792794 (- 53)) = 7205759403792794 / 9007199254740992"
  "double_value (Double 8106479329266893 (- 53)) = 8106479329266893 / 9007199254740992"
  "double_value (Double 4503599627370496 (- 52)) = 4503599627370496 / 4503599627370496"
  using double_value_neg [of 0 56] double_value_neg [of 7205759403792794 56]
    double_value_neg [of 7205759403792794 55] double_value_neg [of 5404319552844596 54]
    double_value_neg [of 7205759403792794 54] double_value_neg [of 4503599627370496 53]
    double_value_neg [of 5404319552844596 53] double_value_neg [of 6305039478318695 53]
    double_value_neg [of 7205759403792794 53] double_value_neg [of 8106479329266893 53]
    double_value_neg [of 4503599627370496 52]
  by (simp_all only: two_power_56 two_power_55 two_power_54 two_power_53 two_power_52 of_int_numeral of_nat_numeral of_int_0 div_0)


lemma defaultNoiseLevels_values:
  "defaultNoiseLevels
   = [0, 7205759403792794 / 72057594037927936, 7205759403792794 / 36028797018963968,
      5404319552844596 / 18014398509481984, 7205759403792794 / 18014398509481984,
      4503599627370496 / 9007199254740992, 5404319552844596 / 9007199254740992,
      6305039478318695 / 9007199254740992, 7205759403792794 / 9007199254740992,
      8106479329266893 / 9007199254740992, 4503599627370496 / 4503599627370496]"
  by (simp only: defaultNoiseLevels_doubles list.map double_values)

lemma defaultNoiseLevels_close:
  "list_all2 (\<lambda>x i. \<bar>x - real i * 0.1\<bar> < 1 / 2 ^ 53) defaultNoiseLevels [0..<11]"
  unfolding defaultNoiseLevels_values upt_11 two_power_53
  by (simp only: list_all2_Cons list_all2_Nil of_nat_numeral of_nat_0 of_nat_1) simp

lemma defaultNoiseLevels_length: "length defaultNoiseLevels = 11"
  by (simp add: defaultNoiseLevels_def)

lemma defaultNoiseLevels_nth:
  "i < 11 \<Longrightarrow>
   defaultNoiseLevels ! i = double_value (double_times (double_of_index i) double_0_1)"
  by (simp add: defaultNoiseLevels_def)

lemma defaultNoiseLevels_nth_close:
  assumes "i < 11"
  shows "\<bar>defaultNoiseLevels ! i - real i * 0.1\<bar> < 1 / 2 ^ 53"
proof -
  from assms have "i < length defaultNoiseLevels" by (simp add: defaultNoiseLevels_length)
  from list_all2_nthD [OF defaultNoiseLevels_close this] assms show ?thesis by simp
qed

lemma defaultNoiseLevels_3: "defaultNoiseLevels ! 3 = 5404319552844596 / 2 ^ 54"
  by (simp only: defaultNoiseLevels_values two_power_54) simp

lemma defaultNoiseLevels_ends: "defaultNoiseLevels ! 0 = 0 \<and> defaultNoiseLevels ! 10 = 1"
  by (simp only: defaultNoiseLevels_values) simp

lemma double_0_1_nearest: "\<bar>double_value double_0_1 - 0.1\<bar> < 1 / 2 ^ 57"
  by (simp only: double_0_1_def double_values two_power_57)

lemma spec_default_nth:
  assumes "i < 11"
  shows "spec_default_noise_levels ! i = real i * 0.1"
proof -
  have e: "spec_default_noise_levels = map (\<lambda>i. real i * 0.1) [0..<11]"
    by (simp add: spec_default_noise_levels_def upt_11)
  have "map (\<lambda>i. real i * 0.1) [0..<11] ! i = real (0 + i) * 0.1"
    using assms by (intro nth_map_upt) simp
  then show ?thesis by (simp only: e add_0)
qed

lemma no_levels_run:
  "\<forall>e \<in> set es. \<not> supplies_levels e \<Longrightarrow> noiseLevels st = [] \<Longrightarrow>
   noiseLevels (sensitivity_run es st) = []"
proof (induction es arbitrary: st)
  case Nil
  then show ?case by (simp add: sensitivity_run_def)
next
  case (Cons e es)
  from Cons.prems have q: "\<not> supplies_levels e" and qs: "\<forall>e \<in> set es. \<not> supplies_levels e"
    by simp_all
  from q Cons.prems(2) have "noiseLevels (sensitivity_step e st) = []"
    by (cases e) (simp_all add: handleCustomNoiseLevels_def nRuns_onChange_def)
  from Cons.IH [OF qs this] show ?case by (simp add: sensitivity_run_def)
qed

lemma no_runs_edit_run:
  "\<forall>e \<in> set es. \<not> is_ChangeRuns e \<Longrightarrow> nRuns (sensitivity_run es st) = nRuns st"
proof (induction es arbitrary: st)
  case Nil
  then show ?case by (simp add: sensitivity_run_def)
next
  case (Cons e es)
  from Cons.prems have q: "\<not> is_ChangeRuns e" and qs: "\<forall>e \<in> set es. \<not> is_ChangeRuns e"
    by simp_all
  from q have "nRuns (sensitivity_step e st) = nRuns st"
    by (cases e) (simp_all add: handleCustomNoiseLevels_def Let_def)
  with Cons.IH [OF qs, of "sensitivity_step e st"] show ?case
    by (simp add: sensitivity_run_def)
qed

lemma request_of_levels:
  "queryFn st = \<lparr> noise_levels = (if noiseLevels st = [] then None else Some (noiseLevels st)),
                   n_runs = nRuns st \<rparr>"
  by (simp add: queryFn_def runAnalysis_def)

text \<open>
  Claim C5. When the user supplies no noise levels, the sensitivity analysis runs with
  the default ordered list of 11 noise levels 0.0 through 1.0 in steps of 0.1 (element
  \<open>i\<close> is \<open>i * 0.1\<close>), and the Monte Carlo trial count defaults to 100.

  With no levels supplied (no edit of the noise levels input left a number) the view
  posts a request without \<open>noise_levels\<close>, so the analysis runs with the engine's default
  list, the one of the specification; a supplied list is posted as it is. The view's
  own default list, shown as the hint and used in the query key, has 11 elements,
  element \<open>i\<close> being the double product \<open>i * 0.1\<close>; it goes from 0 to 1 and each element
  is within \<open>2 ^ -53\<close> of \<open>i / 10\<close> (element 3 is \<open>5404319552844596 / 2 ^ 54\<close>, printed
  0.30000000000000004). The trial count starts at 100, is what the request carries,
  and falls back to 100 when the input is empty or zero.
\<close>

theorem sensitivity_defaults:
  "((\<forall>e \<in> set es. \<not> supplies_levels e) \<longrightarrow>
       noise_levels (queryFn (sensitivity_run es SensitivityView_init)) = None
     \<and> fst (spec_engine_inputs (queryFn (sensitivity_run es SensitivityView_init)))
         = spec_default_noise_levels
     \<and> queryKey_levels (sensitivity_run es SensitivityView_init) = defaultNoiseLevels)
   \<and> (drop_NaN parsed = [] \<longrightarrow>
        noise_levels (queryFn (sensitivity_step (ChangeNoiseLevels v parsed) st)) = None)
   \<and> (drop_NaN parsed \<noteq> [] \<longrightarrow>
        noise_levels (queryFn (sensitivity_step (ChangeNoiseLevels v parsed) st))
          = Some (drop_NaN parsed))
   \<and> length spec_default_noise_levels = 11
   \<and> (\<forall>i < 11. spec_default_noise_levels ! i = real i * 0.1)
   \<and> length defaultNoiseLevels = 11
   \<and> (\<forall>i < 11. defaultNoiseLevels ! i
                   = double_value (double_times (double_of_index i) double_0_1)
               \<and> \<bar>defaultNoiseLevels ! i - real i * 0.1\<bar> < 1 / 2 ^ 53)
   \<and> \<bar>double_value double_0_1 - 0.1\<bar> < 1 / 2 ^ 57
   \<and> defaultNoiseLevels ! 0 = 0 \<and> defaultNoiseLevels ! 10 = 1
   \<and> defaultNoiseLevels ! 3 = 5404319552844596 / 2 ^ 54
   \<and> nRuns SensitivityView_init = 100
   \<and> n_runs (runAnalysis ls None) = 100
   \<and> nRuns (nRuns_onChange None st) = 100
   \<and> nRuns (nRuns_onChange (Some 0) st) = 100
   \<and> n_runs (queryFn st) = nRuns st
   \<and> snd (spec_engine_inputs (queryFn st)) = nRuns st
   \<and> ((\<forall>e \<in> set es. \<not> is_ChangeRuns e) \<longrightarrow>
        n_runs (queryFn (sensitivity_run es SensitivityView_init)) = 100)"
proof -
  let ?S = "sensitivity_run es SensitivityView_init"
  have a: "(\<forall>e \<in> set es. \<not> supplies_levels e) \<longrightarrow>
       noise_levels (queryFn ?S) = None
     \<and> fst (spec_engine_inputs (queryFn ?S)) = spec_default_noise_levels
     \<and> queryKey_levels ?S = defaultNoiseLevels"
  proof
    assume "\<forall>e \<in> set es. \<not> supplies_levels e"
    from no_levels_run [OF this, of SensitivityView_init]
    have n: "noiseLevels ?S = []" by (simp add: SensitivityView_init_def)
    then show "noise_levels (queryFn ?S) = None
     \<and> fst (spec_engine_inputs (queryFn ?S)) = spec_default_noise_levels
     \<and> queryKey_levels ?S = defaultNoiseLevels"
      by (simp add: request_of_levels spec_engine_inputs_def queryKey_levels_def)
  qed
  have b: "drop_NaN parsed = [] \<longrightarrow>
        noise_levels (queryFn (sensitivity_step (ChangeNoiseLevels v parsed) st)) = None"
    by (simp add: request_of_levels handleCustomNoiseLevels_def)
  have c: "drop_NaN parsed \<noteq> [] \<longrightarrow>
        noise_levels (queryFn (sensitivity_step (ChangeNoiseLevels v parsed) st))
          = Some (drop_NaN parsed)"
    by (simp add: request_of_levels handleCustomNoiseLevels_def)
  have d: "length spec_default_noise_levels = 11"
    by (simp add: spec_default_noise_levels_def)
  have e: "\<forall>i < 11. spec_default_noise_levels ! i = real i * 0.1"
    using spec_default_nth by blast
  have f: "\<forall>i < 11. defaultNoiseLevels ! i
                   = double_value (double_times (double_of_index i) double_0_1)
               \<and> \<bar>defaultNoiseLevels ! i - real i * 0.1\<bar> < 1 / 2 ^ 53"
    using defaultNoiseLevels_nth defaultNoiseLevels_nth_close by blast
  have g: "nRuns SensitivityView_init = 100 \<and> n_runs (runAnalysis ls None) = 100
           \<and> nRuns (nRuns_onChange None st) = 100 \<and> nRuns (nRuns_onChange (Some 0) st) = 100
           \<and> n_runs (queryFn st) = nRuns st \<and> snd (spec_engine_inputs (queryFn st)) = nRuns st"
    by (simp add: SensitivityView_init_def runAnalysis_def nRuns_onChange_def
          request_of_levels spec_engine_inputs_def)
  have h: "(\<forall>e \<in> set es. \<not> is_ChangeRuns e) \<longrightarrow> n_runs (queryFn ?S) = 100"
  proof
    assume "\<forall>e \<in> set es. \<not> is_ChangeRuns e"
    from no_runs_edit_run [OF this, of SensitivityView_init]
    show "n_runs (queryFn ?S) = 100"
      by (simp add: request_of_levels SensitivityView_init_def)
  qed
  from a b c d e f g h defaultNoiseLevels_length double_0_1_nearest defaultNoiseLevels_ends
    defaultNoiseLevels_3
  show ?thesis by blast
qed

theorem sensitivity_defaults_witness:
  "list_all (\<lambda>e. \<not> supplies_levels e) [ChangeNoiseLevels ''abc'' [None], ChangeRuns (Some 50)]
   \<and> noise_levels (queryFn (sensitivity_run
         [ChangeNoiseLevels ''abc'' [None], ChangeRuns (Some 50)] SensitivityView_init)) = None
   \<and> fst (spec_engine_inputs (queryFn (sensitivity_run
         [ChangeNoiseLevels ''abc'' [None], ChangeRuns (Some 50)] SensitivityView_init)))
       = spec_default_noise_levels
   \<and> drop_NaN [Some 0.2, None, Some 0.4] = [0.2, 0.4]
   \<and> noise_levels (queryFn (sensitivity_step
         (ChangeNoiseLevels ''0.2, x, 0.4'' [Some 0.2, None, Some 0.4]) SensitivityView_init))
       = Some [0.2, 0.4]
   \<and> list_all (\<lambda>e. \<not> is_ChangeRuns e) [ChangeNoiseLevels ''abc'' [None]]
   \<and> n_runs (queryFn (sensitivity_run [ChangeNoiseLevels ''abc'' [None]] SensitivityView_init))
       = 100
   \<and> (3::nat) < 11
   \<and> spec_default_noise_levels ! 3 = 3 * 0.1
   \<and> \<bar>defaultNoiseLevels ! 3 - 3 * 0.1\<bar> < 1 / 2 ^ 53"
proof -
  let ?es = "[ChangeNoiseLevels ''abc'' [None], ChangeRuns (Some 50)]"
  let ?es' = "[ChangeNoiseLevels ''abc'' [None]]"
  have q: "\<forall>e \<in> set ?es. \<not> supplies_levels e" by simp
  have q': "list_all (\<lambda>e. \<not> supplies_levels e) ?es" by simp
  have r: "\<forall>e \<in> set ?es'. \<not> is_ChangeRuns e" by simp
  have r': "list_all (\<lambda>e. \<not> is_ChangeRuns e) ?es'" by simp
  have d: "drop_NaN [Some 0.2, None, Some 0.4] = [0.2, 0.4]" by simp
  note A = sensitivity_defaults [where es = ?es]
  from A q
  have a: "noise_levels (queryFn (sensitivity_run ?es SensitivityView_init)) = None
     \<and> fst (spec_engine_inputs (queryFn (sensitivity_run ?es SensitivityView_init)))
         = spec_default_noise_levels"
    by blast
  note B = sensitivity_defaults [where parsed = "[Some 0.2, None, Some 0.4]"
             and v = "''0.2, x, 0.4''" and st = SensitivityView_init]
  from B d
  have b: "noise_levels (queryFn (sensitivity_step
         (ChangeNoiseLevels ''0.2, x, 0.4'' [Some 0.2, None, Some 0.4]) SensitivityView_init))
       = Some [0.2, 0.4]"
    by simp
  note C = sensitivity_defaults [where es = ?es']
  from C r
  have c: "n_runs (queryFn (sensitivity_run ?es' SensitivityView_init)) = 100"
    by blast
  from A have "\<forall>i < 11. spec_default_noise_levels ! i = real i * 0.1" by blast
  then have "(3::nat) < 11 \<longrightarrow> spec_default_noise_levels ! 3 = real 3 * 0.1" by blast
  then have e: "spec_default_noise_levels ! 3 = 3 * 0.1" by simp
  from A have "\<forall>i < 11. defaultNoiseLevels ! i
                   = double_value (double_times (double_of_index i) double_0_1)
               \<and> \<bar>defaultNoiseLevels ! i - real i * 0.1\<bar> < 1 / 2 ^ 53"
    by blast
  then have "(3::nat) < 11 \<longrightarrow> \<bar>defaultNoiseLevels ! 3 - real 3 * 0.1\<bar> < 1 / 2 ^ 53" by blast
  then have f: "\<bar>defaultNoiseLevels ! 3 - 3 * 0.1\<bar> < 1 / 2 ^ 53" by simp
  have t: "(3::nat) < 11" by simp
  from q' a d b r' c t e f show ?thesis by blast
qed

subsection \<open>The application store: what survives a reload\<close>

lemma ex_rt: "\<forall>t. ex_parseDate (ex_toISOString t) = Date t"
  by (simp add: ex_parseDate_def ex_toISOString_def)

lemma ex_ne: "\<forall>t. ex_toISOString t \<noteq> []"
  by (simp add: ex_toISOString_def)

text \<open>
  Claim C9. Persistence of the application store saves only \<open>currentDate\<close>,
  \<open>activeView\<close> and \<open>useOptimizedModel\<close>: after a persistence round trip (the state is
  saved, the page reloads, the store rehydrates) these three fields have their previous
  values, \<open>currentDate\<close> through the conversion of its ISO string back to a \<open>Date\<close>, while
  \<open>selectedCountry\<close> is never saved and always rehydrates to \<open>null\<close>, whatever it was. Of
  the platform it is assumed that parsing the ISO string of a time value gives that time
  value back, and that an ISO string is not empty.
\<close>

theorem persist_round_trip:
  assumes rt: "\<forall>t. parseDate (toISOString t) = Date t"
      and ne: "\<forall>t. toISOString t \<noteq> []"
      and save: "persist_setItem toISOString st storage = Inr storage'"
  shows "rehydrate parseDate now storage' = st\<lparr> selectedCountry := None \<rparr>
       \<and> currentDate (rehydrate parseDate now storage') = currentDate st
       \<and> activeView (rehydrate parseDate now storage') = activeView st
       \<and> useOptimizedModel (rehydrate parseDate now storage') = useOptimizedModel st
       \<and> selectedCountry (rehydrate parseDate now storage') = None
       \<and> selectedCountry (rehydrate parseDate now any_storage) = None
       \<and> persist_setItem toISOString (st\<lparr> selectedCountry := c \<rparr>) storage
           = persist_setItem toISOString st storage
       \<and> (\<exists>t. currentDate st = DateObj (Date t)
             \<and> storage' = Some \<lparr> p_currentDate = toISOString t, p_activeView = activeView st,
                                 p_useOptimizedModel = useOptimizedModel st \<rparr>)"
proof -
  from save obtain t where cd: "currentDate st = DateObj (Date t)"
    and st': "storage' = Some \<lparr> p_currentDate = toISOString t, p_activeView = activeView st,
                                 p_useOptimizedModel = useOptimizedModel st \<rparr>"
    by (auto simp: persist_setItem_def partialize_def
             split: date_field.splits js_date.splits sum.splits)
  have r: "rehydrate parseDate now storage' = st\<lparr> selectedCountry := None \<rparr>"
    using rt ne cd
    by (simp add: st' rehydrate_def persist_merge_def onRehydrateStorage_def
          initial_AppState_def)
  have n: "selectedCountry (rehydrate parseDate now any_storage) = None"
    by (simp add: rehydrate_def persist_merge_def onRehydrateStorage_def initial_AppState_def
             split: option.splits date_field.splits)
  have p: "persist_setItem toISOString (st\<lparr> selectedCountry := c \<rparr>) storage
           = persist_setItem toISOString st storage"
    by (simp add: persist_setItem_def partialize_def split: date_field.splits js_date.splits)
  from r n p cd st' show ?thesis by simp
qed

theorem persist_round_trip_witness:
  "(\<forall>t. ex_parseDate (ex_toISOString t) = Date t)
   \<and> (\<forall>t. ex_toISOString t \<noteq> [])
   \<and> persist_setItem ex_toISOString ex_app None
       = Inr (Some \<lparr> p_currentDate = ''+III'', p_activeView = View_backtest,
                     p_useOptimizedModel = False \<rparr>)
   \<and> rehydrate ex_parseDate 0
        (Some \<lparr> p_currentDate = ''+III'', p_activeView = View_backtest,
                p_useOptimizedModel = False \<rparr>)
       = \<lparr> currentDate = DateObj (Date 3), activeView = View_backtest,
           selectedCountry = None, useOptimizedModel = False \<rparr>"
proof -
  have s: "persist_setItem ex_toISOString ex_app None
           = Inr (Some \<lparr> p_currentDate = ''+III'', p_activeView = View_backtest,
                         p_useOptimizedModel = False \<rparr>)"
    by (simp add: persist_setItem_def partialize_def ex_app_def ex_toISOString_def
          numeral_3_eq_3)
  from persist_round_trip [OF ex_rt ex_ne s, of 0]
  have "rehydrate ex_parseDate 0
          (Some \<lparr> p_currentDate = ''+III'', p_activeView = View_backtest,
                  p_useOptimizedModel = False \<rparr>) = ex_app\<lparr> selectedCountry := None \<rparr>"
    by blast
  then show ?thesis using s ex_rt ex_ne by (simp add: ex_app_def)
qed

subsection \<open>BacktestView: polling, the stored job id, the frequency\<close>

lemmas view_defs = checkJobStatus_settled_def checkJobStatus_call_def send_request_def
  removeItem_def setItem_def showNotification_def timer_fires_def handleRunBacktest_call_def
  handleRunBacktest_settled_def handleCancel_def mount_def isRunning_def startBacktest_def
  js_or_def

lemma ex_polling_eval:
  "pollIntervalRef ex_polling = Some \<lparr> timer_job = ''job-1'', timer_ms = 2000 \<rparr>
   \<and> localStorage_job (browser ex_polling) = Some ''job-1''
   \<and> jobStatus ex_polling = Some Running
   \<and> requests (browser ex_polling)
       = [StartBacktest ''2024-01-01'' ''2024-03-31'' ''W-FRI'', GetJobStatus ''job-1'']"
  by (simp add: ex_polling_def run_def view_defs ex_env_def ex_start_def ex_running_def Let_def)

lemma settled_ends_polling:
  "ends_polling status \<Longrightarrow>
     pollIntervalRef (checkJobStatus_settled jid (Inr status) st) = None
   \<and> localStorage_job (browser (checkJobStatus_settled jid (Inr status) st)) = None"
  by (auto simp: ends_polling_def view_defs Let_def)

lemma settled_active:
  "resp_status status = Pending \<or> resp_status status = Running \<Longrightarrow>
     pollIntervalRef (checkJobStatus_settled jid (Inr status) st)
       = (case pollIntervalRef st of
            None \<Rightarrow> Some \<lparr> timer_job = jid, timer_ms = 2000 \<rparr>
          | Some t \<Rightarrow> Some t)
   \<and> localStorage_job (browser (checkJobStatus_settled jid (Inr status) st))
       = localStorage_job (browser st)"
  by (auto simp: view_defs Let_def split: option.splits)

lemma settled_completed_no_result:
  "resp_status status = Completed \<Longrightarrow> resp_result status = None \<Longrightarrow>
     pollIntervalRef (checkJobStatus_settled jid (Inr status) st) = pollIntervalRef st
   \<and> localStorage_job (browser (checkJobStatus_settled jid (Inr status) st))
       = localStorage_job (browser st)"
  by (auto simp: view_defs Let_def split: option.splits)

lemma timers_2000_step: "timers_2000 st \<Longrightarrow> timers_2000 (step e st)"
  by (cases e) (auto simp: timers_2000_def view_defs Let_def split: option.splits sum.splits)

lemma timers_2000_mount: "timers_2000 (mount ds de env)"
  by (auto simp: timers_2000_def view_defs Let_def split: option.splits)

lemma timers_2000_run: "timers_2000 st \<Longrightarrow> timers_2000 (run es st)"
  unfolding run_def by (induction es arbitrary: st) (simp_all add: timers_2000_step)


lemma late_response:
  "ends_polling ex_completed
   \<and> pollIntervalRef (step (StatusSettled ''job-1'' (Inr ex_completed)) ex_polling) = None
   \<and> pollIntervalRef (run [StatusSettled ''job-1'' (Inr ex_completed),
                            StatusSettled ''job-1'' (Inr ex_running)] ex_polling)
       = Some \<lparr> timer_job = ''job-1'', timer_ms = 2000 \<rparr>
   \<and> requests (browser (run [StatusSettled ''job-1'' (Inr ex_completed),
                             StatusSettled ''job-1'' (Inr ex_running), TimerFires] ex_polling))
       = requests (browser ex_polling) @ [GetJobStatus ''job-1'']"
proof -
  have e: "ends_polling ex_completed"
    by (simp add: ends_polling_def ex_completed_def ex_running_def)
  have r: "resp_status ex_running = Pending \<or> resp_status ex_running = Running"
    by (simp add: ex_running_def)
  let ?S = "step (StatusSettled ''job-1'' (Inr ex_completed)) ex_polling"
  let ?T = "step (StatusSettled ''job-1'' (Inr ex_running)) ?S"
  from settled_ends_polling [OF e, of "''job-1''" ex_polling]
  have p: "pollIntervalRef ?S = None" by simp
  from settled_active [OF r, of "''job-1''" ?S] p
  have t: "pollIntervalRef ?T = Some \<lparr> timer_job = ''job-1'', timer_ms = 2000 \<rparr>" by simp
  have q1: "requests (browser ?S) = requests (browser ex_polling)"
    by (simp add: view_defs Let_def)
  have q2: "requests (browser ?T) = requests (browser ?S)"
    by (simp add: view_defs Let_def)
  have q3: "requests (browser (step TimerFires ?T)) = requests (browser ?T) @ [GetJobStatus ''job-1'']"
    using t by (simp add: timer_fires_def checkJobStatus_call_def send_request_def)
  from e p t q1 q2 q3 show ?thesis by (simp add: run_def)
qed

lemma ex_two_jobs_eval:
  "resp_status ex_pending_2 = Pending
   \<and> jobId ex_two_jobs = Some ''job-2''
   \<and> localStorage_job (browser ex_two_jobs) = Some ''job-2''
   \<and> pollIntervalRef ex_two_jobs = Some \<lparr> timer_job = ''job-1'', timer_ms = 2000 \<rparr>
   \<and> requests (browser ex_two_jobs)
       = [GetJobStatus ''job-1'', StartBacktest ''2024-01-01'' ''2024-03-31'' ''W-FRI'',
          GetJobStatus ''job-2'']
   \<and> requests (browser (step TimerFires ex_two_jobs))
       = requests (browser ex_two_jobs) @ [GetJobStatus ''job-1'']"
  by (simp add: ex_two_jobs_def ex_pending_2_def run_def view_defs ex_env_def ex_start_def
        ex_running_def Let_def)

text \<open>
  Claim C2, as stated: once a poll observes a terminal status (completed or failed) the
  view clears its polling interval, removes the stored job id and never polls that job
  again; and after every poll that observes pending or running a next poll (of that
  job) is scheduled. Three runs of the view show otherwise.

  At a poll that observes \<open>completed\<close> without a result payload the interval stays, the
  stored id stays, and the next tick polls the job again.

  When the response of an earlier poll, still saying \<open>running\<close>, arrives after the poll
  that observed \<open>completed\<close> with its result, a new interval is started and its tick
  polls the job again.

  When the view mounts with \<open>job-1\<close> stored and submits \<open>job-2\<close> before the resumed poll
  is answered, the poll of \<open>job-2\<close> observes \<open>pending\<close> while the interval already polls
  \<open>job-1\<close>: no poll of \<open>job-2\<close> is scheduled, the next tick polls \<open>job-1\<close>.
\<close>

theorem poll_completed_without_result_counterexample:
  "resp_status ex_completed_no_result = Completed
   \<and> pollIntervalRef (step (StatusSettled ''job-1'' (Inr ex_completed_no_result)) ex_polling)
       = Some \<lparr> timer_job = ''job-1'', timer_ms = 2000 \<rparr>
   \<and> localStorage_job (browser (step (StatusSettled ''job-1'' (Inr ex_completed_no_result)) ex_polling))
       = Some ''job-1''
   \<and> requests (browser (step TimerFires
                  (step (StatusSettled ''job-1'' (Inr ex_completed_no_result)) ex_polling)))
       = requests (browser ex_polling) @ [GetJobStatus ''job-1'']
   \<and> ends_polling ex_completed
   \<and> pollIntervalRef (step (StatusSettled ''job-1'' (Inr ex_completed)) ex_polling) = None
   \<and> pollIntervalRef (run [StatusSettled ''job-1'' (Inr ex_completed),
                            StatusSettled ''job-1'' (Inr ex_running)] ex_polling)
       = Some \<lparr> timer_job = ''job-1'', timer_ms = 2000 \<rparr>
   \<and> requests (browser (run [StatusSettled ''job-1'' (Inr ex_completed),
                             StatusSettled ''job-1'' (Inr ex_running), TimerFires] ex_polling))
       = requests (browser ex_polling) @ [GetJobStatus ''job-1'']
   \<and> resp_status ex_pending_2 = Pending
   \<and> pollIntervalRef ex_two_jobs = Some \<lparr> timer_job = ''job-1'', timer_ms = 2000 \<rparr>
   \<and> requests (browser (step TimerFires ex_two_jobs))
       = requests (browser ex_two_jobs) @ [GetJobStatus ''job-1'']"
proof -
  have c: "resp_status ex_completed_no_result = Completed"
    and n: "resp_result ex_completed_no_result = None"
    by (simp_all add: ex_completed_no_result_def ex_running_def)
  let ?S = "step (StatusSettled ''job-1'' (Inr ex_completed_no_result)) ex_polling"
  from settled_completed_no_result [OF c n, of "''job-1''" ex_polling] ex_polling_eval
  have p: "pollIntervalRef ?S = Some \<lparr> timer_job = ''job-1'', timer_ms = 2000 \<rparr>"
    and l: "localStorage_job (browser ?S) = Some ''job-1''"
    by simp_all
  have r: "requests (browser ?S) = requests (browser ex_polling)"
    using c n by (simp add: view_defs Let_def)
  have t: "requests (browser (step TimerFires ?S)) = requests (browser ?S) @ [GetJobStatus ''job-1'']"
    using p by (simp add: timer_fires_def checkJobStatus_call_def send_request_def)
  from c p l r t show ?thesis using late_response ex_two_jobs_eval by simp
qed

text \<open>
  Claim C2, amended. Once a status poll observes \<open>failed\<close>, or \<open>completed\<close> together
  with a result, the view clears its polling interval, so that no tick of it sends a
  request any more, and removes the stored job id, so that a view mounting afterwards
  resumes nothing. A poll that observes \<open>completed\<close> without a result changes neither
  the interval nor the stored id. A poll that observes \<open>pending\<close> or \<open>running\<close> while
  the view has no interval starts one for the polled job id with period 2000 ms, whose
  next tick sends the next status request for that job; an interval the view already
  has is left as it is. Every interval of the view has period 2000 ms.
\<close>

theorem poll_outcomes:
  "(ends_polling status \<longrightarrow>
       pollIntervalRef (step (StatusSettled jid (Inr status)) st) = None
     \<and> localStorage_job (browser (step (StatusSettled jid (Inr status)) st)) = None
     \<and> step TimerFires (step (StatusSettled jid (Inr status)) st)
         = step (StatusSettled jid (Inr status)) st
     \<and> requests (browser (step (Reload ds de) (step (StatusSettled jid (Inr status)) st)))
         = requests (browser (step (StatusSettled jid (Inr status)) st)))
   \<and> (resp_status status = Completed \<and> resp_result status = None \<longrightarrow>
       pollIntervalRef (step (StatusSettled jid (Inr status)) st) = pollIntervalRef st
     \<and> localStorage_job (browser (step (StatusSettled jid (Inr status)) st))
         = localStorage_job (browser st))
   \<and> (resp_status status = Pending \<or> resp_status status = Running \<longrightarrow>
       pollIntervalRef (step (StatusSettled jid (Inr status)) st)
         = (case pollIntervalRef st of
              None \<Rightarrow> Some \<lparr> timer_job = jid, timer_ms = 2000 \<rparr>
            | Some t \<Rightarrow> Some t)
     \<and> (pollIntervalRef st = None \<longrightarrow>
          requests (browser (step TimerFires (step (StatusSettled jid (Inr status)) st)))
            = requests (browser (step (StatusSettled jid (Inr status)) st)) @ [GetJobStatus jid])
     \<and> (timers_2000 st \<longrightarrow>
          (\<exists>t. pollIntervalRef (step (StatusSettled jid (Inr status)) st) = Some t
              \<and> timer_ms t = 2000
              \<and> requests (browser (step TimerFires (step (StatusSettled jid (Inr status)) st)))
                  = requests (browser (step (StatusSettled jid (Inr status)) st))
                    @ [GetJobStatus (timer_job t)])))
   \<and> timers_2000 (run es (mount ds de env))"
proof -
  let ?S = "step (StatusSettled jid (Inr status)) st"
  have a: "ends_polling status \<longrightarrow>
       pollIntervalRef ?S = None \<and> localStorage_job (browser ?S) = None
     \<and> step TimerFires ?S = ?S
     \<and> requests (browser (step (Reload ds de) ?S)) = requests (browser ?S)"
  proof
    assume e: "ends_polling status"
    from settled_ends_polling [OF e, of jid st]
    have p: "pollIntervalRef ?S = None" and l: "localStorage_job (browser ?S) = None"
      by simp_all
    from p have t: "step TimerFires ?S = ?S" by (simp add: timer_fires_def)
    from l have m: "requests (browser (step (Reload ds de) ?S)) = requests (browser ?S)"
      by (simp add: mount_def Let_def)
    from p l t m
    show "pollIntervalRef ?S = None \<and> localStorage_job (browser ?S) = None
      \<and> step TimerFires ?S = ?S
      \<and> requests (browser (step (Reload ds de) ?S)) = requests (browser ?S)"
      by blast
  qed
  have b: "resp_status status = Completed \<and> resp_result status = None \<longrightarrow>
       pollIntervalRef ?S = pollIntervalRef st
     \<and> localStorage_job (browser ?S) = localStorage_job (browser st)"
    using settled_completed_no_result [of status jid st] by simp
  have c: "resp_status status = Pending \<or> resp_status status = Running \<longrightarrow>
       pollIntervalRef ?S
         = (case pollIntervalRef st of
              None \<Rightarrow> Some \<lparr> timer_job = jid, timer_ms = 2000 \<rparr>
            | Some t \<Rightarrow> Some t)
     \<and> (pollIntervalRef st = None \<longrightarrow>
          requests (browser (step TimerFires ?S)) = requests (browser ?S) @ [GetJobStatus jid])
     \<and> (timers_2000 st \<longrightarrow>
          (\<exists>t. pollIntervalRef ?S = Some t \<and> timer_ms t = 2000
              \<and> requests (browser (step TimerFires ?S))
                  = requests (browser ?S) @ [GetJobStatus (timer_job t)]))"
  proof
    assume h: "resp_status status = Pending \<or> resp_status status = Running"
    from settled_active [OF h, of jid st]
    have p: "pollIntervalRef ?S
         = (case pollIntervalRef st of
              None \<Rightarrow> Some \<lparr> timer_job = jid, timer_ms = 2000 \<rparr>
            | Some t \<Rightarrow> Some t)"
      by simp
    have n: "pollIntervalRef st = None \<longrightarrow>
          requests (browser (step TimerFires ?S)) = requests (browser ?S) @ [GetJobStatus jid]"
    proof
      assume "pollIntervalRef st = None"
      with p have "pollIntervalRef ?S = Some \<lparr> timer_job = jid, timer_ms = 2000 \<rparr>" by simp
      then show "requests (browser (step TimerFires ?S))
                   = requests (browser ?S) @ [GetJobStatus jid]"
        by (simp add: timer_fires_def checkJobStatus_call_def send_request_def)
    qed
    have q: "timers_2000 st \<longrightarrow>
          (\<exists>t. pollIntervalRef ?S = Some t \<and> timer_ms t = 2000
              \<and> requests (browser (step TimerFires ?S))
                  = requests (browser ?S) @ [GetJobStatus (timer_job t)])"
    proof
      assume "timers_2000 st"
      with p obtain t where t: "pollIntervalRef ?S = Some t" and ms: "timer_ms t = 2000"
        by (auto simp: timers_2000_def split: option.splits)
      from t have "requests (browser (step TimerFires ?S))
                  = requests (browser ?S) @ [GetJobStatus (timer_job t)]"
        by (simp add: timer_fires_def checkJobStatus_call_def send_request_def)
      with t ms show "\<exists>t. pollIntervalRef ?S = Some t \<and> timer_ms t = 2000
              \<and> requests (browser (step TimerFires ?S))
                  = requests (browser ?S) @ [GetJobStatus (timer_job t)]"
        by blast
    qed
    from p n q show "pollIntervalRef ?S
         = (case pollIntervalRef st of
              None \<Rightarrow> Some \<lparr> timer_job = jid, timer_ms = 2000 \<rparr>
            | Some t \<Rightarrow> Some t)
     \<and> (pollIntervalRef st = None \<longrightarrow>
          requests (browser (step TimerFires ?S)) = requests (browser ?S) @ [GetJobStatus jid])
     \<and> (timers_2000 st \<longrightarrow>
          (\<exists>t. pollIntervalRef ?S = Some t \<and> timer_ms t = 2000
              \<and> requests (browser (step TimerFires ?S))
                  = requests (browser ?S) @ [GetJobStatus (timer_job t)]))"
      by blast
  qed
  have d: "timers_2000 (run es (mount ds de env))"
    by (rule timers_2000_run [OF timers_2000_mount])
  from a b c d show ?thesis by blast
qed

theorem poll_outcomes_witness:
  "ends_polling ex_completed
   \<and> pollIntervalRef (step (StatusSettled ''job-1'' (Inr ex_completed)) ex_polling) = None
   \<and> localStorage_job (browser (step (StatusSettled ''job-1'' (Inr ex_completed)) ex_polling)) = None
   \<and> requests (browser (step (Reload ''2024-02-01'' ''2024-04-30'')
                           (step (StatusSettled ''job-1'' (Inr ex_completed)) ex_polling)))
       = requests (browser (step (StatusSettled ''job-1'' (Inr ex_completed)) ex_polling))
   \<and> (resp_status ex_running = Pending \<or> resp_status ex_running = Running)
   \<and> pollIntervalRef (step (StartSettled (Inr ex_start))
                              (mount ''2024-01-01'' ''2024-03-31'' ex_env)) = None
   \<and> requests (browser (step TimerFires (step (StatusSettled ''job-1'' (Inr ex_running))
                  (step (StartSettled (Inr ex_start)) (mount ''2024-01-01'' ''2024-03-31'' ex_env)))))
       = requests (browser (step (StatusSettled ''job-1'' (Inr ex_running))
                  (step (StartSettled (Inr ex_start)) (mount ''2024-01-01'' ''2024-03-31'' ex_env))))
         @ [GetJobStatus ''job-1'']
   \<and> timers_2000 ex_polling
   \<and> pollIntervalRef (step (StatusSettled ''job-1'' (Inr ex_running)) ex_polling)
       = Some \<lparr> timer_job = ''job-1'', timer_ms = 2000 \<rparr>"
proof -
  let ?S1 = "step (StartSettled (Inr ex_start)) (mount ''2024-01-01'' ''2024-03-31'' ex_env)"
  have e: "ends_polling ex_completed"
    by (simp add: ends_polling_def ex_completed_def ex_running_def)
  have r: "resp_status ex_running = Pending \<or> resp_status ex_running = Running"
    by (simp add: ex_running_def)
  have t: "timers_2000 ex_polling"
    using ex_polling_eval by (simp add: timers_2000_def)
  have n: "pollIntervalRef ?S1 = None"
    by (simp add: view_defs ex_env_def ex_start_def)
  note A = poll_outcomes [where status = ex_completed and jid = "''job-1''" and st = ex_polling
                            and ds = "''2024-02-01''" and de = "''2024-04-30''"]
  note B = poll_outcomes [where status = ex_running and jid = "''job-1''" and st = ex_polling]
  note C = poll_outcomes [where status = ex_running and jid = "''job-1''" and st = ?S1]
  from A e
  have a: "pollIntervalRef (step (StatusSettled ''job-1'' (Inr ex_completed)) ex_polling) = None
     \<and> localStorage_job (browser (step (StatusSettled ''job-1'' (Inr ex_completed)) ex_polling)) = None
     \<and> requests (browser (step (Reload ''2024-02-01'' ''2024-04-30'')
                           (step (StatusSettled ''job-1'' (Inr ex_completed)) ex_polling)))
       = requests (browser (step (StatusSettled ''job-1'' (Inr ex_completed)) ex_polling))"
    by blast
  from B r
  have "pollIntervalRef (step (StatusSettled ''job-1'' (Inr ex_running)) ex_polling)
         = (case pollIntervalRef ex_polling of
              None \<Rightarrow> Some \<lparr> timer_job = ''job-1'', timer_ms = 2000 \<rparr>
            | Some t \<Rightarrow> Some t)"
    by blast
  with ex_polling_eval
  have b: "pollIntervalRef (step (StatusSettled ''job-1'' (Inr ex_running)) ex_polling)
       = Some \<lparr> timer_job = ''job-1'', timer_ms = 2000 \<rparr>"
    by simp
  from C r n
  have c: "requests (browser (step TimerFires (step (StatusSettled ''job-1'' (Inr ex_running)) ?S1)))
       = requests (browser (step (StatusSettled ''job-1'' (Inr ex_running)) ?S1))
         @ [GetJobStatus ''job-1'']"
    by blast
  from e r t n a b c show ?thesis by blast
qed

lemma storage_after_step:
  "localStorage_job (browser (step e st)) =
     (case e of
        StatusSettled jid (Inr status) \<Rightarrow>
          if ends_polling status then None else localStorage_job (browser st)
      | ClickCancel \<Rightarrow> if isRunning st then None else localStorage_job (browser st)
      | StartSettled (Inr response) \<Rightarrow> Some (start_job_id response)
      | _ \<Rightarrow> localStorage_job (browser st))"
  by (cases e)
     (auto simp: view_defs ends_polling_def Let_def split: sum.splits option.splits)

lemma reload_resumes:
  "localStorage_job (browser st) = Some j \<Longrightarrow> j \<noteq> [] \<Longrightarrow>
     jobId (step (Reload ds de) st) = Some j
   \<and> localStorage_job (browser (step (Reload ds de) st)) = Some j
   \<and> requests (browser (step (Reload ds de) st)) = requests (browser st) @ [GetJobStatus j]"
  by (simp add: view_defs Let_def)

text \<open>
  Claim C3, as stated: the stored job id is removed exactly when the job is observed
  completed or failed, and a stored id always makes a mounting view resume polling.
  A poll that observes \<open>completed\<close> without a result leaves the id stored; Cancel removes
  it although no poll observed \<open>completed\<close> or \<open>failed\<close>; an empty job id is stored but not
  resumed after a reload.
\<close>

theorem stored_job_id_counterexample:
  "resp_status ex_completed_no_result = Completed
   \<and> localStorage_job (browser (step (StatusSettled ''job-1'' (Inr ex_completed_no_result)) ex_polling))
       = Some ''job-1''
   \<and> jobStatus ex_polling = Some Running
   \<and> localStorage_job (browser ex_polling) = Some ''job-1''
   \<and> localStorage_job (browser (step ClickCancel ex_polling)) = None
   \<and> localStorage_job (browser (step (StartSettled (Inr (ex_start\<lparr> start_job_id := [] \<rparr>)))
                                  (mount ''2024-01-01'' ''2024-03-31'' ex_env))) = Some []
   \<and> requests (browser (step (Reload ''2024-01-01'' ''2024-03-31'')
                  (step (StartSettled (Inr (ex_start\<lparr> start_job_id := [] \<rparr>)))
                        (mount ''2024-01-01'' ''2024-03-31'' ex_env))))
       = requests (browser (step (StartSettled (Inr (ex_start\<lparr> start_job_id := [] \<rparr>)))
                        (mount ''2024-01-01'' ''2024-03-31'' ex_env)))"
proof -
  have c: "resp_status ex_completed_no_result = Completed"
    and n: "resp_result ex_completed_no_result = None"
    by (simp_all add: ex_completed_no_result_def ex_running_def)
  have l: "localStorage_job (browser (step (StatusSettled ''job-1'' (Inr ex_completed_no_result)) ex_polling))
       = Some ''job-1''"
    using settled_completed_no_result [OF c n, of "''job-1''" ex_polling] ex_polling_eval by simp
  have k: "localStorage_job (browser (step ClickCancel ex_polling)) = None"
    using ex_polling_eval by (simp add: view_defs)
  let ?S = "step (StartSettled (Inr (ex_start\<lparr> start_job_id := [] \<rparr>)))
                        (mount ''2024-01-01'' ''2024-03-31'' ex_env)"
  have s: "localStorage_job (browser ?S) = Some []"
    by (simp add: view_defs ex_env_def ex_start_def)
  have r: "requests (browser (step (Reload ''2024-01-01'' ''2024-03-31'') ?S)) = requests (browser ?S)"
    using s by (simp add: mount_def Let_def)
  from c l k s r ex_polling_eval show ?thesis by simp
qed

text \<open>
  Claim C3, amended. For every successful submission the view records the returned job
  id with status \<open>pending\<close>, stores the id in \<open>localStorage\<close> and polls the job. On a later
  mount a stored, non-empty job id makes the view resume polling that job, so polling
  survives a reload. Among the events of the view, the stored id is removed exactly by
  a poll that observes \<open>failed\<close> or \<open>completed\<close> with a result, and by Cancel while a job
  is pending or running; a successful submission replaces it; nothing else changes it.
\<close>

theorem job_id_persistence:
  "jobId (step (StartSettled (Inr response)) st) = Some (start_job_id response)
   \<and> jobStatus (step (StartSettled (Inr response)) st) = Some Pending
   \<and> localStorage_job (browser (step (StartSettled (Inr response)) st))
       = Some (start_job_id response)
   \<and> requests (browser (step (StartSettled (Inr response)) st))
       = requests (browser st) @ [GetJobStatus (start_job_id response)]
   \<and> (localStorage_job (browser st) = Some j \<and> j \<noteq> [] \<longrightarrow>
        jobId (step (Reload ds de) st) = Some j
      \<and> localStorage_job (browser (step (Reload ds de) st)) = Some j
      \<and> requests (browser (step (Reload ds de) st)) = requests (browser st) @ [GetJobStatus j])
   \<and> localStorage_job (browser (step e st)) =
       (case e of
          StatusSettled jid (Inr status) \<Rightarrow>
            if ends_polling status then None else localStorage_job (browser st)
        | ClickCancel \<Rightarrow> if isRunning st then None else localStorage_job (browser st)
        | StartSettled (Inr response) \<Rightarrow> Some (start_job_id response)
        | _ \<Rightarrow> localStorage_job (browser st))"
proof -
  have a: "jobId (step (StartSettled (Inr response)) st) = Some (start_job_id response)
   \<and> jobStatus (step (StartSettled (Inr response)) st) = Some Pending
   \<and> localStorage_job (browser (step (StartSettled (Inr response)) st))
       = Some (start_job_id response)
   \<and> requests (browser (step (StartSettled (Inr response)) st))
       = requests (browser st) @ [GetJobStatus (start_job_id response)]"
    by (simp add: view_defs)
  from a reload_resumes [of st j ds de] storage_after_step [of e st] show ?thesis
    by blast
qed

theorem job_id_persistence_witness:
  "localStorage_job (browser (step (StartSettled (Inr ex_start))
                                  (mount ''2024-01-01'' ''2024-03-31'' ex_env))) = Some ''job-1''
   \<and> ''job-1'' \<noteq> []
   \<and> requests (browser (step (Reload ''2024-02-01'' ''2024-04-30'')
                  (step (StartSettled (Inr ex_start)) (mount ''2024-01-01'' ''2024-03-31'' ex_env))))
       = [GetJobStatus ''job-1'', GetJobStatus ''job-1'']
   \<and> localStorage_job (browser (step (StatusSettled ''job-1'' (Inr ex_completed)) ex_polling)) = None"
proof -
  let ?S0 = "mount ''2024-01-01'' ''2024-03-31'' ex_env"
  let ?S1 = "step (StartSettled (Inr ex_start)) ?S0"
  note A = job_id_persistence [where response = ex_start and st = ?S0]
  have j: "start_job_id ex_start = ''job-1''" by (simp add: ex_start_def)
  have r0: "requests (browser ?S0) = []" by (simp add: mount_def ex_env_def)
  from A j r0 have l: "localStorage_job (browser ?S1) = Some ''job-1''"
    and q: "requests (browser ?S1) = [GetJobStatus ''job-1'']"
    by simp_all
  have ne: "''job-1'' \<noteq> []" by simp
  note B = job_id_persistence [where st = ?S1 and j = "''job-1''" and ds = "''2024-02-01''"
                                 and de = "''2024-04-30''"]
  from B l ne q
  have b: "requests (browser (step (Reload ''2024-02-01'' ''2024-04-30'') ?S1))
             = [GetJobStatus ''job-1'', GetJobStatus ''job-1'']"
    by simp
  note C = job_id_persistence [where st = ex_polling
                                 and e = "StatusSettled ''job-1'' (Inr ex_completed)"]
  have e: "ends_polling ex_completed"
    by (simp add: ends_polling_def ex_completed_def ex_running_def)
  from C e
  have c: "localStorage_job (browser (step (StatusSettled ''job-1'' (Inr ex_completed)) ex_polling)) = None"
    by simp
  from l ne b c show ?thesis by blast
qed


lemma weekly_step:
  assumes "\<not> is_SelectFreq e" and "freq st = Freq_W_FRI"
      and "\<forall>s d f. StartBacktest s d f \<in> set (requests (browser st)) \<longrightarrow> f = ''W-FRI''"
  shows "freq (step e st) = Freq_W_FRI
       \<and> (\<forall>s d f. StartBacktest s d f \<in> set (requests (browser (step e st))) \<longrightarrow> f = ''W-FRI'')"
  using assms
  by (cases e) (auto simp: view_defs Let_def split: option.splits sum.splits)

lemma weekly_run:
  "\<forall>e \<in> set es. \<not> is_SelectFreq e \<Longrightarrow> freq st = Freq_W_FRI \<Longrightarrow>
   \<forall>s d f. StartBacktest s d f \<in> set (requests (browser st)) \<longrightarrow> f = ''W-FRI'' \<Longrightarrow>
   freq (run es st) = Freq_W_FRI
   \<and> (\<forall>s d f. StartBacktest s d f \<in> set (requests (browser (run es st))) \<longrightarrow> f = ''W-FRI'')"
proof (induction es arbitrary: st)
  case Nil
  then show ?case by (simp add: run_def)
next
  case (Cons e es)
  from Cons.prems(1) have q: "\<not> is_SelectFreq e" and qs: "\<forall>e \<in> set es. \<not> is_SelectFreq e"
    by simp_all
  from weekly_step [OF q Cons.prems(2) Cons.prems(3)]
  have f: "freq (step e st) = Freq_W_FRI"
    and r: "\<forall>s d f. StartBacktest s d f \<in> set (requests (browser (step e st))) \<longrightarrow> f = ''W-FRI''"
    by blast+
  from Cons.IH [OF qs f r] show ?case by (simp add: run_def)
qed

lemma mount_weekly:
  "freq (mount ds de env) = Freq_W_FRI
   \<and> (requests env = [] \<longrightarrow>
        (\<forall>s d f. StartBacktest s d f \<in> set (requests (browser (mount ds de env))) \<longrightarrow> f = ''W-FRI''))"
  by (auto simp: view_defs Let_def split: option.splits)

text \<open>
  Claim C7. Unless the user selects a different frequency, a backtest is submitted with
  sampling frequency \<open>'W-FRI'\<close>: the view mounts with it, keeps it through every event
  other than a selection, and \<open>startBacktest\<close> itself defaults to it. The frequencies
  offered for selection are exactly \<open>'W-FRI'\<close>, \<open>'D'\<close> and \<open>'M'\<close>.
\<close>

theorem default_frequency_weekly_friday:
  "freq (mount ds de env) = Freq_W_FRI
   \<and> ((\<forall>e \<in> set es. \<not> is_SelectFreq e) \<and> requests env = [] \<longrightarrow>
        freq (run es (mount ds de env)) = Freq_W_FRI
      \<and> (\<forall>s d f. StartBacktest s d f \<in> set (requests (browser (run es (mount ds de env))))
                   \<longrightarrow> f = ''W-FRI''))
   \<and> (\<not> isRunning st \<longrightarrow>
        requests (browser (step ClickRun st))
          = requests (browser st) @ [StartBacktest (startDate st) (endDate st) (freq_value (freq st))])
   \<and> startBacktest s0 d0 None = StartBacktest s0 d0 ''W-FRI''
   \<and> map (freq_value \<circ> fst) freq_options = [''W-FRI'', ''D'', ''M'']
   \<and> map fst freq_options = [Freq_W_FRI, Freq_D, Freq_M]
   \<and> set (map fst freq_options) = UNIV"
proof -
  have a: "freq (mount ds de env) = Freq_W_FRI" using mount_weekly by blast
  have b: "(\<forall>e \<in> set es. \<not> is_SelectFreq e) \<and> requests env = [] \<longrightarrow>
        freq (run es (mount ds de env)) = Freq_W_FRI
      \<and> (\<forall>s d f. StartBacktest s d f \<in> set (requests (browser (run es (mount ds de env))))
                   \<longrightarrow> f = ''W-FRI'')"
  proof
    assume h: "(\<forall>e \<in> set es. \<not> is_SelectFreq e) \<and> requests env = []"
    then have q: "\<forall>e \<in> set es. \<not> is_SelectFreq e" and r: "requests env = []" by simp_all
    from mount_weekly [of ds de env] r
    have m: "\<forall>s d f. StartBacktest s d f \<in> set (requests (browser (mount ds de env))) \<longrightarrow> f = ''W-FRI''"
      by blast
    from weekly_run [OF q a m]
    show "freq (run es (mount ds de env)) = Freq_W_FRI
      \<and> (\<forall>s d f. StartBacktest s d f \<in> set (requests (browser (run es (mount ds de env))))
                   \<longrightarrow> f = ''W-FRI'')" .
  qed
  have c: "\<not> isRunning st \<longrightarrow>
        requests (browser (step ClickRun st))
          = requests (browser st) @ [StartBacktest (startDate st) (endDate st) (freq_value (freq st))]"
    by (simp add: handleRunBacktest_call_def send_request_def startBacktest_def)
  have d: "startBacktest s0 d0 None = StartBacktest s0 d0 ''W-FRI''"
    by (simp add: startBacktest_def)
  have e: "map (freq_value \<circ> fst) freq_options = [''W-FRI'', ''D'', ''M'']"
    and f: "map fst freq_options = [Freq_W_FRI, Freq_D, Freq_M]"
    by (simp_all add: freq_options_def)
  have g: "set (map fst freq_options) = UNIV"
  proof
    show "UNIV \<subseteq> set (map fst freq_options)"
    proof
      fix x :: freq
      show "x \<in> set (map fst freq_options)" by (cases x) (simp_all add: f)
    qed
  qed simp
  from a b c d e f g show ?thesis by blast
qed

theorem default_frequency_weekly_friday_witness:
  "list_all (\<lambda>e. \<not> is_SelectFreq e)
     [SetStartDate ''2024-01-01'', SetEndDate ''2024-03-31'', ClickRun]
   \<and> requests ex_env = []
   \<and> freq (run [SetStartDate ''2024-01-01'', SetEndDate ''2024-03-31'', ClickRun]
                (mount ''2023-10-01'' ''2023-12-31'' ex_env)) = Freq_W_FRI
   \<and> requests (browser (run [SetStartDate ''2024-01-01'', SetEndDate ''2024-03-31'', ClickRun]
                           (mount ''2023-10-01'' ''2023-12-31'' ex_env)))
       = [StartBacktest ''2024-01-01'' ''2024-03-31'' ''W-FRI'']"
proof -
  let ?es = "[SetStartDate ''2024-01-01'', SetEndDate ''2024-03-31'', ClickRun]"
  let ?m = "mount ''2023-10-01'' ''2023-12-31'' ex_env"
  have q: "\<forall>e \<in> set ?es. \<not> is_SelectFreq e" by simp
  have q': "list_all (\<lambda>e. \<not> is_SelectFreq e) ?es" by simp
  have r: "requests ex_env = []" by (simp add: ex_env_def)
  have v: "requests (browser (run ?es ?m)) = [StartBacktest ''2024-01-01'' ''2024-03-31'' ''W-FRI'']"
    by (simp add: run_def view_defs ex_env_def)
  note A = default_frequency_weekly_friday [where es = ?es and env = ex_env
              and ds = "''2023-10-01''" and de = "''2023-12-31''"]
  from A q r have f: "freq (run ?es ?m) = Freq_W_FRI" by blast
  from q' r f v show ?thesis by blast
qed

end
